theory Spec2Isabelle
  imports Complex_Main
begin

section \<open>Values, errors and the task log\<close>

text \<open>
  The worker routines of \<^verbatim>\<open>modules/AIWorker/backend/worker/functional.py\<close> talk to three
  collaborators: the task broker (\<^verbatim>\<open>current_task.update_state\<close>), the database connector and
  the model or ranker plug-in. Each interaction is an entry of a log, in program order.
  Python integers are \<open>int\<close>; numbers that are only passed along (confidences, statistics)
  are rationals, floating-point rounding is not modelled.
\<close>

type_synonym blob = string

datatype pyval =
    PNone
  | PInt int
  | PNum rat
  | PStr string
  | PBytes blob
  | PGrid "int list list"
  | PB64 "int list"
  | PJson "(string \<times> rat) list"

text \<open>
  \<open>PGrid\<close> is a nested list of integers (a label map), \<open>PB64 bs\<close> stands for the text
  \<^verbatim>\<open>base64.b64encode(bs).decode('utf-8')\<close> of the byte sequence \<open>bs\<close>, \<open>PJson\<close> for a JSON object
  of numbers (a statistics dictionary). A Python dict with string keys is an association
  list read with \<open>map_of\<close>.
\<close>

type_synonym pydict = "(string \<times> pyval) list"

datatype stage =
    StateLoading | MetadataLoading | Training | ModelUpdate | ModelFusion
  | DataCommitting | CachePurging | Inference | Ranking | ResultParsing

text \<open>
  \<open>Wrapped s c\<close> is the \<^verbatim>\<open>Exception\<close> an \<^verbatim>\<open>except\<close> block re-raises with the text
  ``error during \dots'' of stage \<open>s\<close> (and the chunk index \<open>c\<close> in inference); the other
  constructors are exceptions that leave the routine as they were raised.
\<close>

datatype error =
    KeyError string
  | TypeError
  | ValueError
  | IndexError
  | NameError
  | AttributeError
  | OverflowError
  | DbError
  | AdapterError
  | Wrapped stage "nat option"

text \<open>
  A Python number as the reporter accepts it (\<^verbatim>\<open>isinstance\<close> of \<^verbatim>\<open>int\<close> or \<^verbatim>\<open>float\<close>): an
  unbounded integer, a float, or the float NaN. A float other than NaN is a real here:
  infinities and the rounding of float arithmetic are not modelled, and what is proved of
  sums below is proved for integers. A comparison with NaN is false, and \<^verbatim>\<open>min\<close> and \<^verbatim>\<open>max\<close>
  are Python's: they return the first argument unless the second is strictly smaller,
  resp. larger.
\<close>

datatype pynum = NInt int | NFloat real | NNaN

fun num_val :: "pynum \<Rightarrow> real option" where
  "num_val (NInt i) = Some (of_int i)"
| "num_val (NFloat x) = Some x"
| "num_val NNaN = None"

fun num_add :: "pynum \<Rightarrow> pynum \<Rightarrow> pynum" where
  "num_add (NInt a) (NInt b) = NInt (a + b)"
| "num_add (NInt a) (NFloat y) = NFloat (of_int a + y)"
| "num_add (NFloat x) (NInt b) = NFloat (x + of_int b)"
| "num_add (NFloat x) (NFloat y) = NFloat (x + y)"
| "num_add NNaN y = NNaN"
| "num_add x NNaN = NNaN"

definition num_less :: "pynum \<Rightarrow> pynum \<Rightarrow> bool" where
  "num_less x y = (case (num_val x, num_val y) of (Some a, Some b) \<Rightarrow> a < b | _ \<Rightarrow> False)"

definition num_le :: "pynum \<Rightarrow> pynum \<Rightarrow> bool" where
  "num_le x y = (case (num_val x, num_val y) of (Some a, Some b) \<Rightarrow> a \<le> b | _ \<Rightarrow> False)"

definition py_min :: "pynum \<Rightarrow> pynum \<Rightarrow> pynum" where
  "py_min x y = (if num_less y x then y else x)"

definition py_max :: "pynum \<Rightarrow> pynum \<Rightarrow> pynum" where
  "py_max x y = (if num_less x y then y else x)"

record meta =
  meta_project :: string
  meta_epoch :: "int option"
  meta_done :: "pynum option"
  meta_total :: "pynum option"
  meta_message :: "string option"

datatype db_op =
    CountQuery | SelectModelState | SelectLabelClasses | SelectImages
  | SelectAnnotationType | SelectAnnotations | SelectLibraryNames
  | SelectPredictionType | SelectPartialStates | InsertState | DeletePartial
  | InsertPredictions | UpsertFVec

datatype event =
    Progress string meta
  | Db db_op bool
  | AdapterTrain "blob option"
  | AdapterUpdate "blob option"
  | AdapterAverage "blob list"
  | AdapterInference "blob option" "int list"
  | AdapterRank

section \<open>Progress reporter\<close>

function str_nat :: "nat \<Rightarrow> string" where
  "str_nat n =
     (if n < 10 then [char_of (48 + n)]
      else str_nat (n div 10) @ [char_of (48 + n mod 10)])"
  by pat_completeness auto
termination
  by (relation "measure id") auto

declare str_nat.simps [simp del]

definition str_int :: "int \<Rightarrow> string" where
  "str_int i = (if i < 0 then CHR ''-'' # str_nat (nat (- i)) else str_nat (nat i))"

definition str_opt_int :: "int option \<Rightarrow> string" where
  "str_opt_int x = (case x of None \<Rightarrow> ''None'' | Some i \<Rightarrow> str_int i)"

text \<open>
  \<^verbatim>\<open>__get_message_fun(project, cumulatedTotal, offset, epoch, numEpochs)\<close> returns the closure
  \<^verbatim>\<open>__on_message(state, message, done, total)\<close>; the closure is the partial application.
  An argument that fails the \<^verbatim>\<open>isinstance\<close> test (int or float, resp. str) is \<open>None\<close> here;
  the offset is an integer in every call of the file.
  The result is the pair handed to \<^verbatim>\<open>current_task.update_state\<close>; a key the code does
  not set in the \<^verbatim>\<open>meta\<close> dictionary is \<open>None\<close> in the record.
\<close>

definition get_message_fun ::
  "string \<Rightarrow> pynum option \<Rightarrow> int \<Rightarrow> int option \<Rightarrow> int option \<Rightarrow>
   string \<Rightarrow> string option \<Rightarrow> pynum option \<Rightarrow> pynum option \<Rightarrow> string \<times> meta" where
  "get_message_fun project cumulatedTotal offset epoch numEpochs state message dn tot =
     (let dt = (case (dn, tot) of
                  (Some d, Some t) \<Rightarrow>
                    (let trueTotal = num_add t (NInt offset);
                         trueTotal = (case cumulatedTotal of
                                        None \<Rightarrow> trueTotal
                                      | Some c \<Rightarrow> py_max trueTotal c);
                         d' = py_min (num_add d (NInt offset)) trueTotal
                     in Some (d', py_max d' trueTotal))
                | _ \<Rightarrow> None);
          prefix = (case (epoch, numEpochs) of
                      (Some e, Some n) \<Rightarrow>
                        (if n > 1 then ''[Epoch '' @ str_int e @ ''/'' @ str_int n @ ''] ''
                         else [])
                    | _ \<Rightarrow> []);
          message_combined = prefix @ (case message of None \<Rightarrow> [] | Some s \<Rightarrow> s)
      in (state,
          \<lparr> meta_project = project, meta_epoch = epoch,
            meta_done = map_option fst dt, meta_total = map_option snd dt,
            meta_message = (if message_combined \<noteq> [] then Some message_combined else None) \<rparr>))"


section \<open>Database tables and the environment\<close>

text \<open>
  The tables the SQL text of the routines names, with the columns it names. A nullable
  column is an \<open>option\<close>. The \<^verbatim>\<open>stats\<close> column holds the JSON text of a dictionary of
  numbers; it is kept parsed (\<^verbatim>\<open>json.dumps\<close> and \<^verbatim>\<open>json.loads\<close> are inverse on it).
\<close>

record cnnstate =
  cs_id :: int
  cs_timecreated :: "int option"
  cs_statedict :: blob
  cs_stats :: "(string \<times> rat) list option"
  cs_partial :: bool
  cs_model_library :: "string option"
  cs_alcriterion_library :: "string option"

record labelclass =
  lc_id :: int
  lc_name :: string
  lc_idx :: int
  lc_timecreated :: "int option"

record image =
  img_id :: int
  img_filename :: "string option"
  img_fvec :: "blob option"

record annotation =
  an_id :: int
  an_image :: int
  an_fields :: pydict

record project_row =
  pr_annotationtype :: string
  pr_predictiontype :: string
  pr_ai_model_library :: "string option"
  pr_ai_alcriterion_library :: "string option"

text \<open>
  The state a routine runs in: the tables of the project, the row of the project in
  \<^verbatim>\<open>aide_admin.project\<close> (if any), the log of interactions and the number of database calls
  made so far.
\<close>

record world =
  cnnstate_tbl :: "cnnstate list"
  labelclass_tbl :: "labelclass list"
  image_tbl :: "image list"
  annotation_tbl :: "annotation list"
  project_tbl :: "project_row option"
  prediction_tbl :: "pydict list"
  task_log :: "event list"
  db_calls :: nat

text \<open>
  What the source leaves to its surroundings is a parameter: \<open>db_raises n\<close> says whether
  the \<open>n\<close>-th database call of the run raises; \<open>new_id\<close> and \<open>now\<close> are the column defaults
  the database gives an inserted model state; \<open>statistics_col\<close> says whether the table
  \<^verbatim>\<open>cnnstate\<close> has a column named \<^verbatim>\<open>statistics\<close> (the table definition is not part of the
  sources) and reads it; \<open>fieldNames_annotation\<close> and \<open>fieldNames_prediction\<close> are the
  enumerations of \<^verbatim>\<open>constants.dbFieldNames\<close>, \<open>None\<close> where \<^verbatim>\<open>getattr\<close> finds no member.
\<close>

record env =
  db_raises :: "nat \<Rightarrow> bool"
  new_id :: "nat \<Rightarrow> int"
  now :: "nat \<Rightarrow> int option"
  statistics_col :: "(cnnstate \<Rightarrow> pyval) option"
  fieldNames_annotation :: "string \<Rightarrow> string list option"
  fieldNames_prediction :: "string \<Rightarrow> string list option"

definition db_call :: "env \<Rightarrow> db_op \<Rightarrow> world \<Rightarrow> bool \<times> world" where
  "db_call env op w =
     (let ok = \<not> db_raises env (db_calls w)
      in (ok, w \<lparr> task_log := task_log w @ [Db op ok], db_calls := Suc (db_calls w) \<rparr>))"

definition emit :: "string \<times> meta \<Rightarrow> world \<Rightarrow> world" where
  "emit ev w = w \<lparr> task_log := task_log w @ [Progress (fst ev) (snd ev)] \<rparr>"

definition record_call :: "event \<Rightarrow> world \<Rightarrow> world" where
  "record_call ev w = w \<lparr> task_log := task_log w @ [ev] \<rparr>"

subsection \<open>The plug-ins\<close>

type_synonym progress_call = "string \<times> string option \<times> pynum option \<times> pynum option"

record image_meta =
  im_row :: image
  im_annotations :: "pydict list option"

record metadata =
  md_labelClasses :: "(int \<times> labelclass) list"
  md_images :: "(int \<times> image_meta) list"

datatype train_result = TrainState blob | TrainTuple blob "(string \<times> rat) list option"

record img_result =
  ir_predictions :: "pydict list option"
  ir_fVec :: "blob option"

type_synonym inference_result = "(int \<times> img_result) list"

text \<open>
  A plug-in function is called with the reporter closure; what it does with it is the list
  of calls it makes on it (state, message, done, total), returned with its result or the
  exception it raises. The optional members are \<open>None\<close> when \<^verbatim>\<open>hasattr\<close> is false.
\<close>

record model_instance =
  mi_train :: "blob option \<Rightarrow> metadata \<Rightarrow> progress_call list \<times> (error + train_result)"
  mi_inference :: "blob option \<Rightarrow> metadata \<Rightarrow> progress_call list \<times> (error + inference_result)"
  mi_update_model ::
    "(blob option \<Rightarrow> metadata \<Rightarrow> progress_call list \<times> (error + blob)) option"
  mi_average_model_states :: "(blob list \<Rightarrow> progress_call list \<times> (error + blob)) option"

type_synonym ranker =
  "inference_result \<Rightarrow> blob option \<Rightarrow> progress_call list \<times> (error + inference_result)"

definition emit_calls ::
  "(string \<Rightarrow> string option \<Rightarrow> pynum option \<Rightarrow> pynum option \<Rightarrow> string \<times> meta) \<Rightarrow>
   progress_call list \<Rightarrow> world \<Rightarrow> world" where
  "emit_calls update_state calls w =
     w \<lparr> task_log := task_log w @
            map (\<lambda>(s, m, d, t). Progress (fst (update_state s m d t)) (snd (update_state s m d t)))
                calls \<rparr>"

section \<open>Loading\<close>

text \<open>
  \<^verbatim>\<open>__load_model_state\<close>: the query orders the rows of the library by
  \<^verbatim>\<open>timecreated DESC NULLS LAST\<close> and keeps one. Among rows with equal time SQL fixes no
  order; the model keeps the first in table order.
\<close>

definition newer :: "cnnstate \<Rightarrow> cnnstate \<Rightarrow> bool" where
  "newer r b =
     (case (cs_timecreated r, cs_timecreated b) of
        (Some x, Some y) \<Rightarrow> y < x
      | (Some x, None) \<Rightarrow> True
      | _ \<Rightarrow> False)"

definition latest_row :: "cnnstate list \<Rightarrow> cnnstate option" where
  "latest_row rows =
     foldl (\<lambda>best r. case best of None \<Rightarrow> Some r
                      | Some b \<Rightarrow> if newer r b then Some r else Some b) None rows"

definition of_library :: "string \<Rightarrow> cnnstate list \<Rightarrow> cnnstate list" where
  "of_library modelLibrary rows = filter (\<lambda>r. cs_model_library r = Some modelLibrary) rows"

definition load_model_state ::
  "env \<Rightarrow> string \<Rightarrow> world \<Rightarrow> (error + blob option \<times> int option) \<times> world" where
  "load_model_state env modelLibrary w =
     (case db_call env SelectModelState w of
        (False, w') \<Rightarrow> (Inl DbError, w')
      | (True, w') \<Rightarrow>
          (case latest_row (of_library modelLibrary (cnnstate_tbl w')) of
             None \<Rightarrow> (Inr (None, None), w')
           | Some r \<Rightarrow> (Inr (Some (cs_statedict r), Some (cs_id r)), w')))"

text \<open>\<^verbatim>\<open>__load_metadata\<close>. A dictionary filled in a loop keeps the last value of a key.\<close>

fun dict_put :: "'k \<Rightarrow> 'v \<Rightarrow> ('k \<times> 'v) list \<Rightarrow> ('k \<times> 'v) list" where
  "dict_put k v [] = [(k, v)]"
| "dict_put k v ((k', v') # al) = (if k = k' then (k, v) # al else (k', v') # dict_put k v al)"

definition annotation_row :: "string list \<Rightarrow> annotation \<Rightarrow> pydict" where
  "annotation_row fieldNames a =
     (''annotationid'', PInt (an_id a)) # (''image'', PInt (an_image a)) #
     map (\<lambda>f. (f, case map_of (an_fields a) f of None \<Rightarrow> PNone | Some v \<Rightarrow> v)) fieldNames"

fun add_annotations ::
  "string list \<Rightarrow> annotation list \<Rightarrow> (int \<times> image_meta) list \<Rightarrow>
   error + (int \<times> image_meta) list" where
  "add_annotations fieldNames [] imageMeta = Inr imageMeta"
| "add_annotations fieldNames (a # as) imageMeta =
     (case map_of imageMeta (an_image a) of
        None \<Rightarrow> Inl (KeyError ''image'')
      | Some m \<Rightarrow>
          add_annotations fieldNames as
            (dict_put (an_image a)
               (m \<lparr> im_annotations :=
                      Some ((case im_annotations m of None \<Rightarrow> [] | Some l \<Rightarrow> l)
                            @ [annotation_row fieldNames a]) \<rparr>)
               imageMeta))"

definition load_metadata ::
  "env \<Rightarrow> int list \<Rightarrow> bool \<Rightarrow> world \<Rightarrow> (error + metadata) \<times> world" where
  "load_metadata env imageIDs loadAnnotations w =
     (case db_call env SelectLabelClasses w of
        (False, w1) \<Rightarrow> (Inl DbError, w1)
      | (True, w1) \<Rightarrow>
          (let labels = foldl (\<lambda>d r. dict_put (lc_id r) r d) [] (labelclass_tbl w1) in
           case (if imageIDs \<noteq> [] then db_call env SelectImages w1 else (True, w1)) of
             (False, w2) \<Rightarrow> (Inl DbError, w2)
           | (True, w2) \<Rightarrow>
               (let imageMeta =
                      (if imageIDs \<noteq> [] then
                         foldl (\<lambda>d r. dict_put (img_id r)
                                          \<lparr> im_row = r, im_annotations = None \<rparr> d) []
                               (filter (\<lambda>r. img_id r \<in> set imageIDs) (image_tbl w2))
                       else [])
                in if loadAnnotations \<and> imageIDs \<noteq> [] then
                     (case db_call env SelectAnnotationType w2 of
                        (False, w3) \<Rightarrow> (Inl DbError, w3)
                      | (True, w3) \<Rightarrow>
                          (case project_tbl w3 of
                             None \<Rightarrow> (Inl IndexError, w3)
                           | Some pr \<Rightarrow>
                               (case fieldNames_annotation env (pr_annotationtype pr) of
                                  None \<Rightarrow> (Inl AttributeError, w3)
                                | Some fieldNames \<Rightarrow>
                                    (case db_call env SelectAnnotations w3 of
                                       (False, w4) \<Rightarrow> (Inl DbError, w4)
                                     | (True, w4) \<Rightarrow>
                                         (case add_annotations fieldNames
                                                 (filter (\<lambda>a. an_image a \<in> set imageIDs)
                                                         (annotation_tbl w4))
                                                 imageMeta of
                                            Inl e \<Rightarrow> (Inl e, w4)
                                          | Inr im \<Rightarrow>
                                              (Inr \<lparr> md_labelClasses = labels,
                                                     md_images = im \<rparr>, w4))))))
                   else (Inr \<lparr> md_labelClasses = labels, md_images = imageMeta \<rparr>, w2))))"

text \<open>
  \<^verbatim>\<open>__get_ai_library_names\<close>: the \<^verbatim>\<open>return\<close> in the \<^verbatim>\<open>finally\<close> block swallows every exception
  of the query, and the names stay \<^verbatim>\<open>None\<close>.
\<close>

definition get_ai_library_names ::
  "env \<Rightarrow> world \<Rightarrow> (string option \<times> string option) \<times> world" where
  "get_ai_library_names env w =
     (case db_call env SelectLibraryNames w of
        (False, w') \<Rightarrow> ((None, None), w')
      | (True, w') \<Rightarrow>
          (case project_tbl w' of
             None \<Rightarrow> ((None, None), w')
           | Some pr \<Rightarrow> ((pr_ai_model_library pr, pr_ai_alcriterion_library pr), w')))"

text \<open>
  The \<^verbatim>\<open>INSERT\<close> into \<^verbatim>\<open>cnnstate\<close> of the three routines that commit a model state. The
  statement either raises or adds one row.
\<close>

definition insert_state ::
  "env \<Rightarrow> blob \<Rightarrow> (string \<times> rat) list option \<Rightarrow> bool \<Rightarrow> string option \<Rightarrow> string option \<Rightarrow>
   world \<Rightarrow> bool \<times> world" where
  "insert_state env stateDict stats partial model_library alcriterion_library w =
     (case db_call env InsertState w of
        (False, w') \<Rightarrow> (False, w')
      | (True, w') \<Rightarrow>
          (True, w' \<lparr> cnnstate_tbl := cnnstate_tbl w' @
                       [\<lparr> cs_id = new_id env (db_calls w),
                          cs_timecreated = now env (db_calls w),
                          cs_statedict = stateDict,
                          cs_stats = stats,
                          cs_partial = partial,
                          cs_model_library = model_library,
                          cs_alcriterion_library = alcriterion_library \<rparr>] \<rparr>))"

section \<open>Model update\<close>

text \<open>
  The two counts of the \<^verbatim>\<open>UNION ALL\<close> query of \<^verbatim>\<open>_call_update_model\<close>: the rows of
  \<^verbatim>\<open>cnnstate\<close> of the library, and the label classes with
  \<^verbatim>\<open>timeCreated >= (SELECT MAX(timeCreated) ...)\<close>. \<^verbatim>\<open>MAX\<close> skips \<^verbatim>\<open>NULL\<close> and is \<^verbatim>\<open>NULL\<close> over no
  value; a comparison with \<^verbatim>\<open>NULL\<close> selects no row.
\<close>

definition tc_step :: "int option \<Rightarrow> cnnstate \<Rightarrow> int option" where
  "tc_step m r =
     (case cs_timecreated r of
        None \<Rightarrow> m
      | Some t \<Rightarrow> (case m of None \<Rightarrow> Some t | Some x \<Rightarrow> Some (max x t)))"

definition max_timecreated :: "cnnstate list \<Rightarrow> int option" where
  "max_timecreated rows = foldl tc_step None rows"

definition count_states :: "string \<Rightarrow> world \<Rightarrow> nat" where
  "count_states modelLibrary w = length (of_library modelLibrary (cnnstate_tbl w))"

definition count_new_classes :: "string \<Rightarrow> world \<Rightarrow> nat" where
  "count_new_classes modelLibrary w =
     (case max_timecreated (of_library modelLibrary (cnnstate_tbl w)) of
        None \<Rightarrow> 0
      | Some m \<Rightarrow>
          length (filter (\<lambda>c. case lc_timecreated c of None \<Rightarrow> False | Some t \<Rightarrow> m \<le> t)
                         (labelclass_tbl w)))"

definition msg_update :: "string \<Rightarrow> string \<Rightarrow> string option" where
  "msg_update project text = Some (''['' @ project @ '' - model update] '' @ text)"

definition call_update_model ::
  "env \<Rightarrow> string \<Rightarrow> int option \<Rightarrow> model_instance \<Rightarrow> string \<Rightarrow> world \<Rightarrow>
   (error + unit) \<times> world" where
  "call_update_model env project numEpochs modelInstance modelLibrary w =
     (let update_state = get_message_fun project None 0 None numEpochs in
      case mi_update_model modelInstance of
        None \<Rightarrow>
          (Inr (),
           emit (update_state ''SUCCESS''
                   (msg_update project
                      ''WARNING: model does not support modification to new label classes and has not been updated.'')
                   None None) w)
      | Some update_model \<Rightarrow>
          (case db_call env CountQuery w of
             (False, w1) \<Rightarrow> (Inl DbError, w1)
           | (True, w1) \<Rightarrow>
               if count_states modelLibrary w1 > 0 \<and> count_new_classes modelLibrary w1 = 0 then
                 (Inr (),
                  emit (update_state ''SUCCESS''
                          (msg_update project
                             ''class definition has not changed; model did not need to be updated.'')
                          None None) w1)
               else
                 (let w2 = emit (update_state ''PREPARING''
                                   (msg_update project ''loading model state'') None None) w1 in
                  case load_model_state env modelLibrary w2 of
                    (Inl e, w3) \<Rightarrow> (Inl (Wrapped StateLoading None), w3)
                  | (Inr (stateDict, stateDictID), w3) \<Rightarrow>
                      (let w4 = emit (update_state ''PREPARING''
                                        (msg_update project ''loading metadata'') None None) w3 in
                       case load_metadata env [] True w4 of
                         (Inl e, w5) \<Rightarrow> (Inl (Wrapped MetadataLoading None), w5)
                       | (Inr data, w5) \<Rightarrow>
                           (let w6 = emit (update_state ''PREPARING''
                                             (msg_update project ''initiating model update'')
                                             None None) w5;
                                w7 = record_call (AdapterUpdate stateDict) w6;
                                w8 = emit_calls update_state (fst (update_model stateDict data)) w7
                            in case snd (update_model stateDict data) of
                                 Inl e \<Rightarrow> (Inl (Wrapped ModelUpdate None), w8)
                               | Inr newState \<Rightarrow>
                                   (let w9 = emit (update_state ''FINALIZING''
                                                     (msg_update project ''saving model state'')
                                                     None None) w8
                                    in case get_ai_library_names env w9 of
                                         ((model_library, alcriterion_library), w10) \<Rightarrow>
                                           (case insert_state env newState None False
                                                   model_library alcriterion_library w10 of
                                              (False, w11) \<Rightarrow>
                                                (Inl (Wrapped DataCommitting None), w11)
                                            | (True, w11) \<Rightarrow>
                                                (Inr (),
                                                 emit (update_state ''SUCCESS''
                                                         (Some ''model updated'') None None)
                                                      w11))))))))"

section \<open>Training\<close>

definition msg_epoch :: "int option \<Rightarrow> string \<Rightarrow> string option" where
  "msg_epoch epoch text = Some (''[Epoch '' @ str_opt_int epoch @ ''] '' @ text)"

definition call_train ::
  "env \<Rightarrow> string \<Rightarrow> int list \<Rightarrow> int option \<Rightarrow> int option \<Rightarrow> bool \<Rightarrow> model_instance \<Rightarrow> string \<Rightarrow>
   world \<Rightarrow> (error + unit) \<times> world" where
  "call_train env project imageIDs epoch numEpochs isSubset modelInstance modelLibrary w =
     (let update_state =
            get_message_fun project (Some (NInt (int (length imageIDs)))) 0 epoch numEpochs;
          w1 = emit (update_state ''PREPARING'' (msg_epoch epoch ''loading model state'')
                       None None) w
      in case load_model_state env modelLibrary w1 of
           (Inl e, w2) \<Rightarrow> (Inl (Wrapped StateLoading None), w2)
         | (Inr (stateDict, stateDictID), w2) \<Rightarrow>
             (let w3 = emit (update_state ''PREPARING'' (msg_epoch epoch ''loading metadata'')
                               None None) w2
              in case load_metadata env imageIDs True w3 of
                   (Inl e, w4) \<Rightarrow> (Inl (Wrapped MetadataLoading None), w4)
                 | (Inr data, w4) \<Rightarrow>
                     (let w5 = emit (update_state ''PREPARING''
                                       (msg_epoch epoch ''initiating training'') None None) w4;
                          w6 = record_call (AdapterTrain stateDict) w5;
                          w7 = emit_calls update_state
                                 (fst (mi_train modelInstance stateDict data)) w6
                      in case snd (mi_train modelInstance stateDict data) of
                           Inl e \<Rightarrow> (Inl (Wrapped Training None), w7)
                         | Inr result \<Rightarrow>
                             (let newState = (case result of TrainState s \<Rightarrow> s
                                              | TrainTuple s st \<Rightarrow> s);
                                  stats = (case result of TrainState s \<Rightarrow> None
                                           | TrainTuple s st \<Rightarrow> st);
                                  w8 = emit (update_state ''FINALIZING''
                                               (msg_epoch epoch ''saving model state'')
                                               None None) w7
                              in case get_ai_library_names env w8 of
                                   ((model_library, alcriterion_library), w9) \<Rightarrow>
                                     (case insert_state env newState stats isSubset
                                             model_library alcriterion_library w9 of
                                        (False, w10) \<Rightarrow>
                                          (Inl (Wrapped DataCommitting None), w10)
                                      | (True, w10) \<Rightarrow>
                                          (Inr (),
                                           emit (update_state ''SUCCESS''
                                                   (Some (''trained on ''
                                                          @ str_nat (length imageIDs)
                                                          @ '' images''))
                                                   None None) w10))))))"

section \<open>Averaging of partial model states\<close>

text \<open>
  The query of \<^verbatim>\<open>_call_average_model_states\<close> is
  \<^verbatim>\<open>SELECT stateDict, statistics, model_library, alcriterion_library FROM cnnstate
  WHERE partial IS TRUE AND model_library = %s\<close>. A result row is a dictionary keyed by
  the lower-case names of the selected columns, as every row access of the file reads it
  (\<^verbatim>\<open>qr['statedict']\<close> for the column \<^verbatim>\<open>stateDict\<close>). The statement raises when the database
  call raises or when the table has no column \<^verbatim>\<open>statistics\<close>.
\<close>

definition text_val :: "string option \<Rightarrow> pyval" where
  "text_val x = (case x of None \<Rightarrow> PNone | Some s \<Rightarrow> PStr s)"

definition select_partial_states ::
  "env \<Rightarrow> string \<Rightarrow> world \<Rightarrow> (error + pydict list) \<times> world" where
  "select_partial_states env modelLibrary w =
     (let ok = (statistics_col env \<noteq> None \<and> \<not> db_raises env (db_calls w));
          w' = w \<lparr> task_log := task_log w @ [Db SelectPartialStates ok],
                   db_calls := Suc (db_calls w) \<rparr>
      in case statistics_col env of
           None \<Rightarrow> (Inl DbError, w')
         | Some statistics \<Rightarrow>
             if \<not> ok then (Inl DbError, w')
             else (Inr (map (\<lambda>r. [(''statedict'', PBytes (cs_statedict r)),
                                  (''statistics'', statistics r),
                                  (''model_library'', text_val (cs_model_library r)),
                                  (''alcriterion_library'',
                                     text_val (cs_alcriterion_library r))])
                            (filter (\<lambda>r. cs_partial r \<and> cs_model_library r = Some modelLibrary)
                                    (cnnstate_tbl w'))), w'))"

text \<open>
  \<^verbatim>\<open>dicts = [json.loads(qr['stats']) for qr in queryResult if qr['stats'] is not None]\<close>: a row
  without the key \<^verbatim>\<open>stats\<close> raises \<^verbatim>\<open>KeyError\<close>, and the statement is in no \<^verbatim>\<open>try\<close> block.
\<close>

definition row_stats :: "pydict \<Rightarrow> error + (string \<times> rat) list option" where
  "row_stats qr =
     (case map_of qr ''stats'' of
        None \<Rightarrow> Inl (KeyError ''stats'')
      | Some PNone \<Rightarrow> Inr None
      | Some (PJson d) \<Rightarrow> Inr (Some d)
      | Some _ \<Rightarrow> Inl TypeError)"

fun collect_stats :: "pydict list \<Rightarrow> error + (string \<times> rat) list list" where
  "collect_stats [] = Inr []"
| "collect_stats (qr # qrs) =
     (case row_stats qr of
        Inl e \<Rightarrow> Inl e
      | Inr s \<Rightarrow>
          (case collect_stats qrs of
             Inl e \<Rightarrow> Inl e
           | Inr ds \<Rightarrow> Inr (case s of None \<Rightarrow> ds | Some d \<Rightarrow> d # ds)))"

text \<open>
  \<^verbatim>\<open>np.nanmean\<close> on the values of one key: their sum over their number (the list is never
  empty, a key comes from some dictionary).
\<close>

definition nanmean :: "rat list \<Rightarrow> rat" where
  "nanmean xs = sum_list xs / of_nat (length xs)"

definition average_stats :: "(string \<times> rat) list list \<Rightarrow> (string \<times> rat) list option" where
  "average_stats dicts =
     (let keys = remdups (concat (map (map fst) dicts));
          stats_avg = map (\<lambda>key. (key, nanmean (List.map_filter (\<lambda>d. map_of d key) dicts))) keys
      in if stats_avg = [] then None else Some stats_avg)"

definition row_blob :: "pydict \<Rightarrow> blob option" where
  "row_blob qr = (case map_of qr ''statedict'' of Some (PBytes b) \<Rightarrow> Some b | _ \<Rightarrow> None)"

definition as_text :: "pyval \<Rightarrow> string option" where
  "as_text v = (case v of PStr s \<Rightarrow> Some s | _ \<Rightarrow> None)"

text \<open>
  The library names of the fused state: those of the first row, or, when a key is
  missing, the ones of the project.
\<close>

definition fused_library_names ::
  "env \<Rightarrow> pydict list \<Rightarrow> world \<Rightarrow> (string option \<times> string option) \<times> world" where
  "fused_library_names env queryResult w =
     (case (map_of (hd queryResult) ''model_library'',
            map_of (hd queryResult) ''alcriterion_library'') of
        (Some m, Some a) \<Rightarrow> ((as_text m, as_text a), w)
      | _ \<Rightarrow> get_ai_library_names env w)"

text \<open>\<^verbatim>\<open>DELETE FROM cnnstate WHERE partial IS TRUE\<close>: the statement names no library.\<close>

definition purge_partial :: "env \<Rightarrow> world \<Rightarrow> bool \<times> world" where
  "purge_partial env w =
     (case db_call env DeletePartial w of
        (False, w') \<Rightarrow> (False, w')
      | (True, w') \<Rightarrow>
          (True, w' \<lparr> cnnstate_tbl := filter (\<lambda>r. \<not> cs_partial r) (cnnstate_tbl w') \<rparr>))"

text \<open>
  \<open>average_rows\<close> is the routine from the test \<^verbatim>\<open>if not len(queryResult)\<close> on, for the rows
  the query returned.
\<close>

definition average_rows ::
  "env \<Rightarrow> string \<Rightarrow> int option \<Rightarrow> int option \<Rightarrow> model_instance \<Rightarrow> pydict list \<Rightarrow> world \<Rightarrow>
   (error + unit) \<times> world" where
  "average_rows env project epoch numEpochs modelInstance queryResult w =
     (let update_state = get_message_fun project None 0 epoch numEpochs in
      if queryResult = [] then
        (Inr (), emit (update_state ''SUCCESS''
                         (msg_epoch epoch ''no model states to be averaged'') None None) w)
      else
        (let w1 = emit (update_state ''PREPARING'' (msg_epoch epoch ''averaging models'')
                          None None) w
         in case those (map row_blob queryResult) of
              None \<Rightarrow> (Inl (Wrapped ModelFusion None), w1)
            | Some modelStates \<Rightarrow>
                (case mi_average_model_states modelInstance of
                   None \<Rightarrow> (Inl (Wrapped ModelFusion None), w1)
                 | Some average_model_states \<Rightarrow>
                     (let w2 = record_call (AdapterAverage modelStates) w1;
                          w3 = emit_calls update_state
                                 (fst (average_model_states modelStates)) w2
                      in case snd (average_model_states modelStates) of
                           Inl e \<Rightarrow> (Inl (Wrapped ModelFusion None), w3)
                         | Inr modelStates_avg \<Rightarrow>
                             (case collect_stats queryResult of
                                Inl e \<Rightarrow> (Inl e, w3)
                              | Inr dicts \<Rightarrow>
                                  (let stats_avg = average_stats dicts;
                                       w4 = emit (update_state ''FINALIZING''
                                                    (msg_epoch epoch ''saving model state'')
                                                    None None) w3
                                   in case fused_library_names env queryResult w4 of
                                        ((model_library, alcriterion_library), w5) \<Rightarrow>
                                          (case insert_state env modelStates_avg stats_avg False
                                                  model_library alcriterion_library w5 of
                                             (False, w6) \<Rightarrow>
                                               (Inl (Wrapped DataCommitting None), w6)
                                           | (True, w6) \<Rightarrow>
                                               (let w7 = emit (update_state ''FINALIZING''
                                                                 (msg_epoch epoch
                                                                    ''purging cache'')
                                                                 None None) w6
                                                in case purge_partial env w7 of
                                                     (False, w8) \<Rightarrow>
                                                       (Inl (Wrapped CachePurging None), w8)
                                                   | (True, w8) \<Rightarrow>
                                                       (Inr (),
                                                        emit (update_state ''SUCCESS''
                                                                (msg_epoch epoch
                                                                   (''averaged ''
                                                                    @ str_nat
                                                                        (length queryResult)
                                                                    @ '' model states''))
                                                                None None) w8)))))))))"

definition call_average_model_states ::
  "env \<Rightarrow> string \<Rightarrow> int option \<Rightarrow> int option \<Rightarrow> model_instance \<Rightarrow> string \<Rightarrow> world \<Rightarrow>
   (error + unit) \<times> world" where
  "call_average_model_states env project epoch numEpochs modelInstance modelLibrary w =
     (let update_state = get_message_fun project None 0 epoch numEpochs;
          w1 = emit (update_state ''PREPARING'' (msg_epoch epoch ''loading model states'')
                       None None) w
      in case select_partial_states env modelLibrary w1 of
           (Inl e, w2) \<Rightarrow> (Inl (Wrapped StateLoading None), w2)
         | (Inr queryResult, w2) \<Rightarrow>
             average_rows env project epoch numEpochs modelInstance queryResult w2)"

section \<open>Inference\<close>

text \<open>
  Modelled from the spec: \<^verbatim>\<open>util.helpers.array_split\<close> is imported by the file and is not
  among the sources. The specification has it cut the list into contiguous chunks of the
  given size, the last of which may be smaller. A list no longer than the size is one
  chunk (a size of zero never reaches the function: the caller tests the limit).
\<close>

function array_split :: "'a list \<Rightarrow> nat \<Rightarrow> 'a list list" where
  "array_split arr n =
     (if n = 0 \<or> length arr \<le> n then [arr]
      else take n arr # array_split (drop n arr) n)"
  by pat_completeness auto
termination
  by (relation "measure (\<lambda>(arr, n). length arr)") auto

declare array_split.simps [simp del]

text \<open>
  The segmentation mask of an image: \<^verbatim>\<open>np.array(result[imgID]['predictions'][0]['label'])\<close>,
  cast to \<^verbatim>\<open>uint8\<close>, whose \<^verbatim>\<open>shape\<close> must unpack into height and width. The label read is
  that of the first prediction of the image, whichever prediction the loop is at. A nested
  list is a two-dimensional array when it has rows and they have one length; every other
  value makes the unpacking (or the cast) raise. The cast reduces an integer modulo 256;
  an integer outside the 64-bit range makes it raise \<^verbatim>\<open>OverflowError\<close>. The result is the
  encoded flattened mask, the width and the height.
\<close>

definition seg_mask :: "pydict list \<Rightarrow> error + pyval \<times> int \<times> int" where
  "seg_mask predictions =
     (case predictions of
        [] \<Rightarrow> Inl IndexError
      | p # ps \<Rightarrow>
          (case map_of p ''label'' of
             None \<Rightarrow> Inl (KeyError ''label'')
           | Some (PGrid rows) \<Rightarrow>
               (if rows \<noteq> [] \<and> list_all (\<lambda>r. length r = length (hd rows)) rows then
                  (if list_all (\<lambda>x. - (2 ^ 63) \<le> x \<and> x < 2 ^ 64) (concat rows) then
                     Inr (PB64 (map (\<lambda>x. x mod 256) (concat rows)),
                          int (length (hd rows)), int (length rows))
                   else Inl OverflowError)
                else Inl ValueError)
           | Some v \<Rightarrow> Inl ValueError))"

text \<open>
  The value appended for one field name: the chain of \<^verbatim>\<open>if\<close>/\<^verbatim>\<open>elif\<close> in the loop over
  \<^verbatim>\<open>fieldNames\<close>. \<open>seg\<close> holds \<^verbatim>\<open>segMask\<close> and \<^verbatim>\<open>segMaskDimensions\<close>, which are bound only when
  the prediction type is \<^verbatim>\<open>segmentationMasks\<close>.
\<close>

definition field_value ::
  "string \<Rightarrow> int \<Rightarrow> int option \<Rightarrow> (pyval \<times> int \<times> int) option \<Rightarrow> pydict \<Rightarrow> string \<Rightarrow>
   error + pyval" where
  "field_value predType imgID stateDictID seg prediction fn =
     (if fn = ''image'' then Inr (PInt imgID)
      else if fn = ''cnnstate'' then
        Inr (case stateDictID of None \<Rightarrow> PNone | Some i \<Rightarrow> PInt i)
      else if fn = ''segmentationmask'' then
        (case seg of None \<Rightarrow> Inl NameError | Some (segMask, width, height) \<Rightarrow> Inr segMask)
      else if fn = ''width'' \<or> fn = ''height'' then
        (if predType = ''segmentationMasks'' then
           (case seg of
              None \<Rightarrow> Inl NameError
            | Some (segMask, width, height) \<Rightarrow>
                Inr (PInt (if fn = ''width'' then width else height)))
         else (case map_of prediction fn of Some v \<Rightarrow> Inr v | None \<Rightarrow> Inr PNone))
      else if fn = ''priority'' then
        (case map_of prediction fn of
           Some PNone \<Rightarrow>
             (case map_of prediction ''confidence'' of
                Some c \<Rightarrow> Inr c
              | None \<Rightarrow> Inr PNone)
         | Some v \<Rightarrow> Inr v
         | None \<Rightarrow> Inl (KeyError ''priority''))
      else (case map_of prediction fn of Some v \<Rightarrow> Inr v | None \<Rightarrow> Inr PNone))"

fun build_row ::
  "string \<Rightarrow> int \<Rightarrow> int option \<Rightarrow> (pyval \<times> int \<times> int) option \<Rightarrow> pydict \<Rightarrow> string list \<Rightarrow>
   error + pyval list" where
  "build_row predType imgID stateDictID seg prediction [] = Inr []"
| "build_row predType imgID stateDictID seg prediction (fn # fns) =
     (case field_value predType imgID stateDictID seg prediction fn of
        Inl e \<Rightarrow> Inl e
      | Inr v \<Rightarrow>
          (case build_row predType imgID stateDictID seg prediction fns of
             Inl e \<Rightarrow> Inl e
           | Inr vs \<Rightarrow> Inr (v # vs)))"

text \<open>
  The loop over the predictions of one image; \<open>allPredictions\<close> is the whole list
  \<^verbatim>\<open>result[imgID]['predictions']\<close>, of which the mask reads the first element.
\<close>

fun parse_predictions ::
  "string \<Rightarrow> string list \<Rightarrow> int \<Rightarrow> int option \<Rightarrow> pydict list \<Rightarrow> pydict list \<Rightarrow>
   error + pyval list list" where
  "parse_predictions predType fieldNames imgID stateDictID allPredictions [] = Inr []"
| "parse_predictions predType fieldNames imgID stateDictID allPredictions (prediction # ps) =
     (case (if predType = ''segmentationMasks'' then map_sum id Some (seg_mask allPredictions)
            else Inr None) of
        Inl e \<Rightarrow> Inl e
      | Inr seg \<Rightarrow>
          (case build_row predType imgID stateDictID seg prediction fieldNames of
             Inl e \<Rightarrow> Inl e
           | Inr row \<Rightarrow>
               (case parse_predictions predType fieldNames imgID stateDictID
                       allPredictions ps of
                  Inl e \<Rightarrow> Inl e
                | Inr rows \<Rightarrow> Inr (row # rows))))"

text \<open>
  The loop over \<^verbatim>\<open>result.keys()\<close>: the rows of \<^verbatim>\<open>values_pred\<close> and the pairs of \<^verbatim>\<open>values_img\<close>.
\<close>

fun parse_result ::
  "string \<Rightarrow> string list \<Rightarrow> int option \<Rightarrow> inference_result \<Rightarrow>
   error + pyval list list \<times> (int \<times> blob) list" where
  "parse_result predType fieldNames stateDictID [] = Inr ([], [])"
| "parse_result predType fieldNames stateDictID ((imgID, r) # rest) =
     (case ir_predictions r of
        None \<Rightarrow> Inl (KeyError ''predictions'')
      | Some predictions \<Rightarrow>
          (case parse_predictions predType fieldNames imgID stateDictID
                  predictions predictions of
             Inl e \<Rightarrow> Inl e
           | Inr rows \<Rightarrow>
               (case parse_result predType fieldNames stateDictID rest of
                  Inl e \<Rightarrow> Inl e
                | Inr (values_pred, values_img) \<Rightarrow>
                    Inr (rows @ values_pred,
                         (case ir_fVec r of
                            None \<Rightarrow> values_img
                          | Some f \<Rightarrow> if f \<noteq> [] then (imgID, f) # values_img
                                      else values_img)))))"

text \<open>
  The two \<^verbatim>\<open>INSERT\<close> statements of a chunk. A stored prediction is the dictionary of the
  named columns. The second statement sets the feature vector of an image that exists and
  adds the image otherwise (\<^verbatim>\<open>ON CONFLICT (id) DO UPDATE\<close>).
\<close>

definition insert_predictions ::
  "env \<Rightarrow> string list \<Rightarrow> pyval list list \<Rightarrow> world \<Rightarrow> bool \<times> world" where
  "insert_predictions env fieldNames values_pred w =
     (case db_call env InsertPredictions w of
        (False, w') \<Rightarrow> (False, w')
      | (True, w') \<Rightarrow>
          (True, w' \<lparr> prediction_tbl := prediction_tbl w' @ map (zip fieldNames) values_pred \<rparr>))"

fun upsert_image :: "int \<Rightarrow> blob \<Rightarrow> image list \<Rightarrow> image list" where
  "upsert_image i f [] = [\<lparr> img_id = i, img_filename = None, img_fvec = Some f \<rparr>]"
| "upsert_image i f (r # rs) =
     (if img_id r = i then r \<lparr> img_fvec := Some f \<rparr> # rs else r # upsert_image i f rs)"

definition upsert_fvec :: "env \<Rightarrow> (int \<times> blob) list \<Rightarrow> world \<Rightarrow> bool \<times> world" where
  "upsert_fvec env values_img w =
     (case db_call env UpsertFVec w of
        (False, w') \<Rightarrow> (False, w')
      | (True, w') \<Rightarrow>
          (True, w' \<lparr> image_tbl := foldl (\<lambda>t (i, f). upsert_image i f t)
                                          (image_tbl w') values_img \<rparr>))"

text \<open>What stays the same over the chunks of one call of \<^verbatim>\<open>_call_inference\<close>.\<close>

record job =
  job_project :: string
  job_imageIDs :: "int list"
  job_epoch :: "int option"
  job_numEpochs :: "int option"
  job_model :: model_instance
  job_ranker :: "ranker option"
  job_batchSizeLimit :: "int option"
  job_predType :: string
  job_stateDict :: "blob option"
  job_stateDictID :: "int option"
  job_nchunks :: nat

definition msg_chunk :: "job \<Rightarrow> nat \<Rightarrow> string \<Rightarrow> string option" where
  "msg_chunk j idx text =
     msg_epoch (job_epoch j)
       (text @ '' (chunk '' @ str_nat (idx + 1) @ ''/'' @ str_nat (job_nchunks j) @ '')'')"

text \<open>
  The body of the loop \<^verbatim>\<open>for idx, imageID_batch in enumerate(imageID_chunks)\<close>, in the
  sections the source marks by its comments. The reporter of a chunk has the offset
  \<^verbatim>\<open>idx*batchSizeLimit\<close>.
\<close>

definition chunk_reporter ::
  "job \<Rightarrow> nat \<Rightarrow> int \<Rightarrow> string \<Rightarrow> string option \<Rightarrow> pynum option \<Rightarrow> pynum option \<Rightarrow> string \<times> meta" where
  "chunk_reporter j idx batchSizeLimit =
     get_message_fun (job_project j) (Some (NInt (int (length (job_imageIDs j)))))
       (int idx * batchSizeLimit) (job_epoch j) (job_numEpochs j)"

text \<open>Loading the metadata of the chunk, calling the inference function, ranking.\<close>

definition chunk_predict ::
  "env \<Rightarrow> job \<Rightarrow> nat \<Rightarrow> int \<Rightarrow> int list \<Rightarrow> world \<Rightarrow> (error + inference_result) \<times> world" where
  "chunk_predict env j idx batchSizeLimit imageID_batch w =
     (let update_state = chunk_reporter j idx batchSizeLimit;
          w1 = emit (update_state ''PREPARING'' (msg_chunk j idx ''loading metadata'')
                       None None) w
      in case load_metadata env imageID_batch False w1 of
           (Inl e, w2) \<Rightarrow> (Inl (Wrapped MetadataLoading (Some idx)), w2)
         | (Inr data, w2) \<Rightarrow>
             (let w3 = emit (update_state ''PREPARING''
                               (msg_chunk j idx ''starting inference'') None None) w2;
                  w4 = record_call (AdapterInference (job_stateDict j) imageID_batch) w3;
                  w5 = emit_calls update_state
                         (fst (mi_inference (job_model j) (job_stateDict j) data)) w4
              in case snd (mi_inference (job_model j) (job_stateDict j) data) of
                   Inl e \<Rightarrow> (Inl (Wrapped Inference (Some idx)), w5)
                 | Inr result \<Rightarrow>
                     (case job_ranker j of
                        None \<Rightarrow> (Inr result, w5)
                      | Some rank \<Rightarrow>
                          (let w6 = emit (update_state ''PREPARING''
                                            (msg_chunk j idx ''calculating priorities'')
                                            None None) w5;
                               w7 = record_call AdapterRank w6;
                               w8 = emit_calls update_state
                                      (fst (rank result (job_stateDict j))) w7
                           in case snd (rank result (job_stateDict j)) of
                                Inl e \<Rightarrow> (Inl (Wrapped Ranking (Some idx)), w8)
                              | Inr ranked \<Rightarrow> (Inr ranked, w8)))))"

text \<open>
  Parsing the result: the field names of the prediction type with \<^verbatim>\<open>image\<close> and
  \<^verbatim>\<open>cnnstate\<close> appended, the rows and the feature vectors.
\<close>

definition chunk_parse ::
  "env \<Rightarrow> job \<Rightarrow> inference_result \<Rightarrow>
   error + string list \<times> pyval list list \<times> (int \<times> blob) list" where
  "chunk_parse env j result =
     (case fieldNames_prediction env (job_predType j) of
        None \<Rightarrow> Inl AttributeError
      | Some names \<Rightarrow>
          (let fieldNames = names @ [''image'', ''cnnstate'']
           in case parse_result (job_predType j) fieldNames (job_stateDictID j) result of
                Inl e \<Rightarrow> Inl e
              | Inr (values_pred, values_img) \<Rightarrow> Inr (fieldNames, values_pred, values_img)))"

text \<open>Committing: each statement only when it has rows.\<close>

definition chunk_commit ::
  "env \<Rightarrow> nat \<Rightarrow> string list \<Rightarrow> pyval list list \<Rightarrow> (int \<times> blob) list \<Rightarrow> world \<Rightarrow>
   (error + unit) \<times> world" where
  "chunk_commit env idx fieldNames values_pred values_img w =
     (case (if values_pred \<noteq> [] then insert_predictions env fieldNames values_pred w
            else (True, w)) of
        (False, w1) \<Rightarrow> (Inl (Wrapped DataCommitting (Some idx)), w1)
      | (True, w1) \<Rightarrow>
          (case (if values_img \<noteq> [] then upsert_fvec env values_img w1 else (True, w1)) of
             (False, w2) \<Rightarrow> (Inl (Wrapped DataCommitting (Some idx)), w2)
           | (True, w2) \<Rightarrow> (Inr (), w2)))"

text \<open>
  The first statement of the body multiplies \<^verbatim>\<open>idx\<close> by \<^verbatim>\<open>batchSizeLimit\<close>, outside every
  \<^verbatim>\<open>try\<close> block: with the limit \<^verbatim>\<open>None\<close> this is a \<^verbatim>\<open>TypeError\<close>.
\<close>

definition process_chunk ::
  "env \<Rightarrow> job \<Rightarrow> nat \<Rightarrow> int list \<Rightarrow> world \<Rightarrow> (error + unit) \<times> world" where
  "process_chunk env j idx imageID_batch w =
     (case job_batchSizeLimit j of
        None \<Rightarrow> (Inl TypeError, w)
      | Some batchSizeLimit \<Rightarrow>
          (case chunk_predict env j idx batchSizeLimit imageID_batch w of
             (Inl e, w1) \<Rightarrow> (Inl e, w1)
           | (Inr result, w1) \<Rightarrow>
               (let w2 = emit (chunk_reporter j idx batchSizeLimit ''FINALIZING''
                                 (msg_chunk j idx ''saving predictions'') None None) w1
                in case chunk_parse env j result of
                     Inl e \<Rightarrow> (Inl (Wrapped ResultParsing (Some idx)), w2)
                   | Inr (fieldNames, values_pred, values_img) \<Rightarrow>
                       chunk_commit env idx fieldNames values_pred values_img w2)))"

fun infer_chunks ::
  "env \<Rightarrow> job \<Rightarrow> nat \<Rightarrow> int list list \<Rightarrow> world \<Rightarrow> (error + unit) \<times> world" where
  "infer_chunks env j idx [] w = (Inr (), w)"
| "infer_chunks env j idx (imageID_batch # chunks) w =
     (case process_chunk env j idx imageID_batch w of
        (Inl e, w') \<Rightarrow> (Inl e, w')
      | (Inr u, w') \<Rightarrow> infer_chunks env j (Suc idx) chunks w')"

definition imageID_chunks :: "int list \<Rightarrow> int option \<Rightarrow> int list list" where
  "imageID_chunks imageIDs batchSizeLimit =
     (case batchSizeLimit of
        None \<Rightarrow> [imageIDs]
      | Some b \<Rightarrow> if b > 0 then array_split imageIDs (nat b) else [imageIDs])"

text \<open>
  \<^verbatim>\<open>_call_inference\<close>. The closing \<^verbatim>\<open>SUCCESS\<close> report goes through the reporter of the last
  chunk (the loop rebinds \<^verbatim>\<open>update_state\<close>); it passes no \<^verbatim>\<open>done\<close> or \<^verbatim>\<open>total\<close>.
\<close>

definition call_inference ::
  "env \<Rightarrow> string \<Rightarrow> int list \<Rightarrow> int option \<Rightarrow> int option \<Rightarrow> model_instance \<Rightarrow> string \<Rightarrow>
   ranker option \<Rightarrow> int option \<Rightarrow> world \<Rightarrow> (error + unit) \<times> world" where
  "call_inference env project imageIDs epoch numEpochs modelInstance modelLibrary
                  rankerInstance batchSizeLimit w =
     (let update_state =
            get_message_fun project (Some (NInt (int (length imageIDs)))) 0 epoch numEpochs
      in case db_call env SelectPredictionType w of
           (False, w1) \<Rightarrow> (Inl DbError, w1)
         | (True, w1) \<Rightarrow>
             (case project_tbl w1 of
                None \<Rightarrow> (Inl IndexError, w1)
              | Some pr \<Rightarrow>
                  (let w2 = emit (update_state ''PREPARING''
                                    (msg_epoch epoch ''loading model state'') None None) w1
                   in case load_model_state env modelLibrary w2 of
                        (Inl e, w3) \<Rightarrow> (Inl (Wrapped StateLoading None), w3)
                      | (Inr (stateDict, stateDictID), w3) \<Rightarrow>
                          (let chunks = imageID_chunks imageIDs batchSizeLimit;
                               j = \<lparr> job_project = project, job_imageIDs = imageIDs,
                                     job_epoch = epoch, job_numEpochs = numEpochs,
                                     job_model = modelInstance, job_ranker = rankerInstance,
                                     job_batchSizeLimit = batchSizeLimit,
                                     job_predType = pr_predictiontype pr,
                                     job_stateDict = stateDict,
                                     job_stateDictID = stateDictID,
                                     job_nchunks = length chunks \<rparr>
                           in case infer_chunks env j 0 chunks w3 of
                                (Inl e, w4) \<Rightarrow> (Inl e, w4)
                              | (Inr u, w4) \<Rightarrow>
                                  (Inr (),
                                   emit (get_message_fun project
                                           (Some (NInt (int (length imageIDs))))
                                           (int (length chunks - 1)
                                              * (case batchSizeLimit of None \<Rightarrow> 0
                                                 | Some b \<Rightarrow> b))
                                           epoch numEpochs ''SUCCESS''
                                           (Some (''predicted on ''
                                                  @ str_nat (length imageIDs) @ '' images''))
                                           None None) w4)))))"

section \<open>Notions of the specification and scenarios\<close>

text \<open>The events a run adds to the log of the world it starts in.\<close>

definition new_events :: "world \<Rightarrow> world \<Rightarrow> event list" where
  "new_events w w' = drop (length (task_log w)) (task_log w')"

text \<open>
  The feature vector the image table holds for an image: \<open>None\<close> when the table has no
  row of that image, \<open>Some None\<close> when the row has no feature vector.
\<close>

definition fvec_of :: "image list \<Rightarrow> int \<Rightarrow> blob option option" where
  "fvec_of t i = map_option img_fvec (find (\<lambda>r. img_id r = i) t)"

text \<open>
  What a chunk hands to the commit: the field names, the prediction rows and the feature
  vectors that the inference function and the parsing of its result yield in a world,
  \<open>None\<close> when one of the two fails.
\<close>

definition chunk_outcome ::
  "env \<Rightarrow> job \<Rightarrow> nat \<Rightarrow> int list \<Rightarrow> world \<Rightarrow>
   (string list \<times> pyval list list \<times> (int \<times> blob) list) option" where
  "chunk_outcome env j idx imageID_batch w =
     (case job_batchSizeLimit j of
        None \<Rightarrow> None
      | Some batchSizeLimit \<Rightarrow>
          (case fst (chunk_predict env j idx batchSizeLimit imageID_batch w) of
             Inl e \<Rightarrow> None
           | Inr result \<Rightarrow>
               (case chunk_parse env j result of
                  Inl e \<Rightarrow> None
                | Inr parsed \<Rightarrow> Some parsed)))"

text \<open>
  The creation time of the latest non-partial model state of a library, and the two
  readings of ``no label class was created since'': strictly after \<open>t\<close>, and at or after
  \<open>t\<close>.
\<close>

definition latest_nonpartial_time :: "string \<Rightarrow> world \<Rightarrow> int option" where
  "latest_nonpartial_time modelLibrary w =
     max_timecreated (filter (\<lambda>r. \<not> cs_partial r) (of_library modelLibrary (cnnstate_tbl w)))"

definition no_class_after :: "int \<Rightarrow> world \<Rightarrow> bool" where
  "no_class_after t w =
     (\<forall>c\<in>set (labelclass_tbl w). case lc_timecreated c of None \<Rightarrow> True | Some u \<Rightarrow> \<not> t < u)"

definition no_class_at_or_after :: "int \<Rightarrow> world \<Rightarrow> bool" where
  "no_class_at_or_after t w =
     (\<forall>c\<in>set (labelclass_tbl w). case lc_timecreated c of None \<Rightarrow> True | Some u \<Rightarrow> u < t)"

text \<open>
  The tables of a world, and two readings of a log: the batches handed to the inference
  function, in order, and the number of prediction inserts that succeeded.
\<close>

definition tables ::
  "world \<Rightarrow> cnnstate list \<times> labelclass list \<times> image list \<times> annotation list
             \<times> project_row option \<times> pydict list" where
  "tables w = (cnnstate_tbl w, labelclass_tbl w, image_tbl w, annotation_tbl w,
               project_tbl w, prediction_tbl w)"

fun is_progress :: "event \<Rightarrow> bool" where
  "is_progress (Progress s m) = True"
| "is_progress e = False"

fun is_read :: "event \<Rightarrow> bool" where
  "is_read (Db op ok) =
     (op \<noteq> InsertState \<and> op \<noteq> DeletePartial \<and> op \<noteq> InsertPredictions \<and> op \<noteq> UpsertFVec)"
| "is_read e = False"

definition inference_batches :: "event list \<Rightarrow> int list list" where
  "inference_batches evs =
     concat (map (\<lambda>e. case e of AdapterInference s ids \<Rightarrow> [ids] | _ \<Rightarrow> []) evs)"

definition count_inserts :: "event list \<Rightarrow> nat" where
  "count_inserts evs = length (filter (\<lambda>e. e = Db InsertPredictions True) evs)"

text \<open>The events of the calls a plug-in makes on the reporter, and of loading metadata.\<close>

definition calls_events ::
  "(string \<Rightarrow> string option \<Rightarrow> pynum option \<Rightarrow> pynum option \<Rightarrow> string \<times> meta) \<Rightarrow>
   progress_call list \<Rightarrow> event list" where
  "calls_events u cs =
     map (\<lambda>(s, m, d, t). Progress (fst (u s m d t)) (snd (u s m d t))) cs"

definition metadata_events :: "env \<Rightarrow> int list \<Rightarrow> bool \<Rightarrow> world \<Rightarrow> event list" where
  "metadata_events env ids la w = new_events w (snd (load_metadata env ids la w))"

text \<open>A database that never raises, and a plug-in with all four members.\<close>

definition env_ok :: env where
  "env_ok = \<lparr> db_raises = (\<lambda>n. False), new_id = (\<lambda>n. 100 + int n),
              now = (\<lambda>n. Some (1000 + int n)), statistics_col = None,
              fieldNames_annotation = (\<lambda>t. Some [''label'']),
              fieldNames_prediction =
                (\<lambda>t. Some [''label'', ''confidence'', ''priority'']) \<rparr>"

definition model_stub :: model_instance where
  "model_stub =
     \<lparr> mi_train = (\<lambda>s d. ([], Inr (TrainState ''T''))),
       mi_inference =
         (\<lambda>s d. ([], Inr (map (\<lambda>(i, m). (i, \<lparr> ir_predictions =
                                                 Some [[(''label'', PInt 1),
                                                        (''confidence'', PNum (1/2)),
                                                        (''priority'', PNone)]],
                                               ir_fVec = None \<rparr>))
                              (md_images d)))),
       mi_update_model = Some (\<lambda>s d. ([], Inr ''U'')),
       mi_average_model_states = Some (\<lambda>ss. ([], Inr ''A'')) \<rparr>"

text \<open>
  One committed state of library \<open>L\<close> at time 5, and one label class: created at time 5
  in \<open>world_tie\<close>, at time 3 in \<open>world_quiet\<close>.
\<close>

definition world_tie :: world where
  "world_tie =
     \<lparr> cnnstate_tbl =
         [\<lparr> cs_id = 1, cs_timecreated = Some 5, cs_statedict = ''S1'', cs_stats = None,
            cs_partial = False, cs_model_library = Some ''L'',
            cs_alcriterion_library = None \<rparr>],
       labelclass_tbl =
         [\<lparr> lc_id = 1, lc_name = ''elephant'', lc_idx = 0, lc_timecreated = Some 5 \<rparr>],
       image_tbl = [], annotation_tbl = [], project_tbl = None, prediction_tbl = [],
       task_log = [], db_calls = 0 \<rparr>"

definition world_quiet :: world where
  "world_quiet =
     world_tie \<lparr> labelclass_tbl :=
         [\<lparr> lc_id = 1, lc_name = ''elephant'', lc_idx = 0, lc_timecreated = Some 3 \<rparr>] \<rparr>"

text \<open>
  Five images and a model whose inference function raises on a batch that holds image 3
  and returns, for every other image, one prediction and a feature vector; the job cuts
  the five images into chunks of one.
\<close>

definition world_five :: world where
  "world_five =
     \<lparr> cnnstate_tbl =
         [\<lparr> cs_id = 1, cs_timecreated = Some 5, cs_statedict = ''S1'', cs_stats = None,
            cs_partial = False, cs_model_library = Some ''L'',
            cs_alcriterion_library = None \<rparr>],
       labelclass_tbl =
         [\<lparr> lc_id = 1, lc_name = ''elephant'', lc_idx = 0, lc_timecreated = Some 3 \<rparr>],
       image_tbl = map (\<lambda>i. \<lparr> img_id = i, img_filename = None, img_fvec = None \<rparr>)
                       [1, 2, 3, 4, 5],
       annotation_tbl = [],
       project_tbl = Some \<lparr> pr_annotationtype = ''boundingBoxes'',
                            pr_predictiontype = ''boundingBoxes'',
                            pr_ai_model_library = Some ''L'',
                            pr_ai_alcriterion_library = None \<rparr>,
       prediction_tbl = [], task_log = [], db_calls = 0 \<rparr>"

definition model_fail_3 :: model_instance where
  "model_fail_3 =
     model_stub \<lparr> mi_inference :=
       (\<lambda>s d. if 3 \<in> set (map fst (md_images d)) then ([], Inl AdapterError)
               else ([], Inr (map (\<lambda>(i, m). (i, \<lparr> ir_predictions =
                                                       Some [[(''label'', PInt 1),
                                                              (''confidence'', PNum (1/2)),
                                                              (''priority'', PNone)]],
                                                     ir_fVec = Some (if i = 1 then ''F1''
                                                                     else ''F2'') \<rparr>))
                                    (md_images d)))) \<rparr>"

definition job_five :: job where
  "job_five =
     \<lparr> job_project = ''p'', job_imageIDs = [1, 2, 3, 4, 5], job_epoch = None,
       job_numEpochs = None, job_model = model_fail_3, job_ranker = None,
       job_batchSizeLimit = Some 1, job_predType = ''boundingBoxes'',
       job_stateDict = Some ''S1'', job_stateDictID = Some 1, job_nchunks = 5 \<rparr>"

text \<open>
  A model whose predictions carry a label and a confidence and no key \<^verbatim>\<open>priority\<close>, and a
  ranker that returns the predictions as it gets them.
\<close>

definition model_no_priority :: model_instance where
  "model_no_priority =
     model_stub \<lparr> mi_inference :=
       (\<lambda>s d. ([], Inr (map (\<lambda>(i, m). (i, \<lparr> ir_predictions =
                                               Some [[(''label'', PInt 1),
                                                      (''confidence'', PNum (9/10))]],
                                             ir_fVec = None \<rparr>))
                            (md_images d)))) \<rparr>"

definition ranker_idle :: ranker where
  "ranker_idle = (\<lambda>result stateDict. ([], Inr result))"






section \<open>Properties of the progress reporter\<close>

lemma py_min_max_int [simp]:
  "py_min (NInt a) (NInt b) = NInt (min a b)" "py_max (NInt a) (NInt b) = NInt (max a b)"
  by (auto simp: py_min_def py_max_def num_less_def)






text \<open>
  With a \<open>done\<close> of NaN the reporter emits NaN for both, and \<open>done \<le> total\<close> is false.
\<close>

lemma get_message_fun_nan:
  "meta_done (snd (get_message_fun ''p'' None 0 None None ''PROGRESS'' None
                     (Some NNaN) (Some (NInt 10)))) = Some NNaN
   \<and> meta_total (snd (get_message_fun ''p'' None 0 None None ''PROGRESS'' None
                        (Some NNaN) (Some (NInt 10)))) = Some NNaN
   \<and> \<not> num_le NNaN NNaN"
  by (simp add: get_message_fun_def Let_def py_min_def py_max_def num_less_def num_le_def)



section \<open>Model update: the fast path\<close>

lemma fst_get_message_fun [simp]: "fst (get_message_fun p c off e n s m d t) = s"
  by (simp add: get_message_fun_def Let_def)

lemma tc_step_simps:
  "cs_timecreated r = None \<Longrightarrow> tc_step m r = m"
  "cs_timecreated r = Some t \<Longrightarrow> tc_step None r = Some t"
  "cs_timecreated r = Some t \<Longrightarrow> tc_step (Some x) r = Some (max x t)"
  by (simp_all add: tc_step_def)

lemma foldl_tc_step_Some:
  "\<exists>y. foldl tc_step (Some x) rows = Some y \<and> x \<le> y"
proof (induction rows arbitrary: x)
  case Nil
  then show ?case by simp
next
  case (Cons r rows)
  show ?case
  proof (cases "cs_timecreated r")
    case None
    then show ?thesis using Cons.IH[of x] by (simp add: tc_step_simps)
  next
    case (Some t)
    then show ?thesis using Cons.IH[of "max x t"] by (auto simp: tc_step_simps)
  qed
qed

lemma foldl_tc_step_ge:
  "r \<in> set rows \<Longrightarrow> cs_timecreated r = Some t \<Longrightarrow> \<exists>y. foldl tc_step m rows = Some y \<and> t \<le> y"
proof (induction rows arbitrary: m)
  case Nil
  then show ?case by simp
next
  case (Cons a rows)
  show ?case
  proof (cases "r = a")
    case True
    then show ?thesis
      using Cons.prems foldl_tc_step_Some[of "case m of None \<Rightarrow> t | Some x \<Rightarrow> max x t" rows]
      by (cases m) (auto simp: tc_step_simps)
  next
    case False
    then show ?thesis using Cons by auto
  qed
qed

lemma foldl_tc_step_attained:
  "foldl tc_step m rows = Some y \<Longrightarrow> m = Some y \<or> (\<exists>r\<in>set rows. cs_timecreated r = Some y)"
proof (induction rows arbitrary: m)
  case Nil
  then show ?case by simp
next
  case (Cons a rows)
  from Cons.prems have "foldl tc_step (tc_step m a) rows = Some y" by simp
  from Cons.IH[OF this] show ?case
    by (cases "cs_timecreated a"; cases m) (auto simp: tc_step_simps max_def split: if_splits)
qed

text \<open>
  The newest state of the library, partial or not, is at least as new as its newest
  non-partial state: the two counts of the query are then positive and zero.
\<close>

lemma nonpartial_time_counts:
  assumes "latest_nonpartial_time lib w = Some t" and "no_class_at_or_after t w"
  shows "count_states lib w > 0 \<and> count_new_classes lib w = 0"
proof -
  from assms(1) obtain r where r: "r \<in> set (of_library lib (cnnstate_tbl w))"
      "cs_timecreated r = Some t"
    using foldl_tc_step_attained
            [of None "filter (\<lambda>r. \<not> cs_partial r) (of_library lib (cnnstate_tbl w))" t]
    by (auto simp: latest_nonpartial_time_def max_timecreated_def)
  then obtain y where y: "max_timecreated (of_library lib (cnnstate_tbl w)) = Some y" "t \<le> y"
    using foldl_tc_step_ge[OF r, of None] by (auto simp: max_timecreated_def)
  have "filter (\<lambda>c. case lc_timecreated c of None \<Rightarrow> False | Some u \<Rightarrow> y \<le> u)
               (labelclass_tbl w) = []"
    using assms(2) y(2)
    by (auto simp: no_class_at_or_after_def filter_empty_conv split: option.splits)
  then show ?thesis using r(1) y(1)
    by (auto simp: count_states_def count_new_classes_def)
qed

text \<open>
  C5, as stated, fails: the query counts the label classes created at or after the newest
  state (\<^verbatim>\<open>timeCreated >= MAX(timeCreated)\<close>). In \<open>world_tie\<close> the latest non-partial state of
  \<open>L\<close> and the only label class both carry time 5, so no label class was created after
  it; the routine still loads the state, calls \<^verbatim>\<open>update_model\<close> on it and commits a second
  state.
\<close>

theorem C5_same_timestamp_invokes_adapter:
  "latest_nonpartial_time ''L'' world_tie = Some 5 \<and> no_class_after 5 world_tie
   \<and> fst (call_update_model env_ok ''p'' None model_stub ''L'' world_tie) = Inr ()
   \<and> AdapterUpdate (Some ''S1'')
       \<in> set (task_log (snd (call_update_model env_ok ''p'' None model_stub ''L'' world_tie)))
   \<and> length (cnnstate_tbl (snd (call_update_model env_ok ''p'' None model_stub ''L'' world_tie)))
       = 2"
  by (simp add: latest_nonpartial_time_def no_class_after_def world_tie_def env_ok_def
      model_stub_def max_timecreated_def tc_step_def of_library_def call_update_model_def
      db_call_def emit_def record_call_def emit_calls_def count_states_def count_new_classes_def
      load_model_state_def latest_row_def newer_def load_metadata_def get_ai_library_names_def
      insert_state_def Let_def)

text \<open>
  C5, amended: whenever the library has a non-partial state with a creation time and no
  label class has a creation time at or after the latest such time, and the count query
  does not raise, \<^verbatim>\<open>_call_update_model\<close> returns normally, the only events of the run are
  the count query (when the model has \<^verbatim>\<open>update_model\<close>) and one \<^verbatim>\<open>SUCCESS\<close> report, and no
  model state is added: no state load, no metadata load, no call of the plug-in, no
  commit.
\<close>

theorem C5_fast_path:
  assumes "latest_nonpartial_time lib w = Some t"
      and "no_class_at_or_after t w"
      and "\<not> db_raises env (db_calls w)"
  shows "fst (call_update_model env project numEpochs mi lib w) = Inr ()
       \<and> cnnstate_tbl (snd (call_update_model env project numEpochs mi lib w)) = cnnstate_tbl w
       \<and> (\<exists>m. new_events w (snd (call_update_model env project numEpochs mi lib w))
                 = [Progress ''SUCCESS'' m]
            \<or> new_events w (snd (call_update_model env project numEpochs mi lib w))
                 = [Db CountQuery True, Progress ''SUCCESS'' m])"
proof (cases "mi_update_model mi")
  case None
  then show ?thesis
    by (simp add: call_update_model_def emit_def new_events_def Let_def)
next
  case (Some f)
  define w1 where "w1 = snd (db_call env CountQuery w)"
  have c: "db_call env CountQuery w = (True, w1)"
    using assms(3) by (simp add: w1_def db_call_def Let_def)
  have t1: "cnnstate_tbl w1 = cnnstate_tbl w" "labelclass_tbl w1 = labelclass_tbl w"
    by (simp_all add: w1_def db_call_def Let_def)
  have "latest_nonpartial_time lib w1 = Some t" "no_class_at_or_after t w1"
    using assms(1,2) t1 by (simp_all add: latest_nonpartial_time_def no_class_at_or_after_def)
  from nonpartial_time_counts[OF this]
  have cnt: "count_states lib w1 > 0" "count_new_classes lib w1 = 0" by simp_all
  have l1: "task_log w1 = task_log w @ [Db CountQuery True]"
    using assms(3) by (simp add: w1_def db_call_def Let_def)
  show ?thesis
    using Some cnt t1 l1
    by (simp add: call_update_model_def c emit_def new_events_def Let_def)
qed

theorem C5_fast_path_witness:
  "latest_nonpartial_time ''L'' world_quiet = Some 5 \<and> no_class_at_or_after 5 world_quiet
   \<and> \<not> db_raises env_ok (db_calls world_quiet)
   \<and> fst (call_update_model env_ok ''p'' None model_stub ''L'' world_quiet) = Inr ()
   \<and> cnnstate_tbl (snd (call_update_model env_ok ''p'' None model_stub ''L'' world_quiet))
       = cnnstate_tbl world_quiet"
proof -
  have h: "latest_nonpartial_time ''L'' world_quiet = Some 5"
          "no_class_at_or_after 5 world_quiet"
          "\<not> db_raises env_ok (db_calls world_quiet)"
    by (simp_all add: latest_nonpartial_time_def no_class_at_or_after_def world_quiet_def
        world_tie_def env_ok_def max_timecreated_def tc_step_def of_library_def)
  show ?thesis
    using h C5_fast_path[OF h, of "''p''" None model_stub] by simp
qed

section \<open>Tables and log of the primitive steps\<close>

lemma db_call_facts:
  "db_call env op w = (ok, w') \<Longrightarrow>
   tables w' = tables w \<and> task_log w' = task_log w @ [Db op ok] \<and> db_calls w' = Suc (db_calls w)
   \<and> ok = (\<not> db_raises env (db_calls w))"
  by (auto simp: db_call_def tables_def Let_def)

lemma emit_facts [simp]:
  "tables (emit ev w) = tables w"
  "task_log (emit ev w) = task_log w @ [Progress (fst ev) (snd ev)]"
  "db_calls (emit ev w) = db_calls w"
  by (simp_all add: emit_def tables_def)

lemma record_call_facts [simp]:
  "tables (record_call e w) = tables w"
  "task_log (record_call e w) = task_log w @ [e]"
  "db_calls (record_call e w) = db_calls w"
  by (simp_all add: record_call_def tables_def)

lemma load_model_state_facts:
  "load_model_state env lib w = (r, w') \<Longrightarrow>
   tables w' = tables w \<and> (\<exists>ok. task_log w' = task_log w @ [Db SelectModelState ok])"
  by (auto simp: load_model_state_def tables_def db_call_def Let_def
           split: prod.splits bool.splits option.splits if_splits)

lemma get_ai_library_names_facts:
  "get_ai_library_names env w = (r, w') \<Longrightarrow>
   tables w' = tables w \<and> (\<exists>ok. task_log w' = task_log w @ [Db SelectLibraryNames ok])"
  by (auto simp: get_ai_library_names_def tables_def db_call_def Let_def
           split: prod.splits bool.splits option.splits if_splits)

lemma load_metadata_facts:
  "load_metadata env ids la w = (r, w') \<Longrightarrow>
   tables w' = tables w \<and> (\<exists>evs. task_log w' = task_log w @ evs \<and> (\<forall>e\<in>set evs. is_read e))"
  by (auto simp: load_metadata_def tables_def db_call_def Let_def
           split: prod.splits bool.splits option.splits if_splits sum.splits)

lemma summaries_append [simp]:
  "inference_batches (a @ b) = inference_batches a @ inference_batches b"
  "count_inserts (a @ b) = count_inserts a + count_inserts b"
  by (simp_all add: inference_batches_def count_inserts_def)

lemma summaries_simps [simp]:
  "inference_batches [] = []" "count_inserts [] = 0"
  "inference_batches (Progress s m # es) = inference_batches es"
  "inference_batches (Db op ok # es) = inference_batches es"
  "inference_batches (AdapterRank # es) = inference_batches es"
  "inference_batches (AdapterInference sd ids # es) = ids # inference_batches es"
  "count_inserts (Progress s m # es) = count_inserts es"
  "count_inserts (AdapterRank # es) = count_inserts es"
  "count_inserts (AdapterInference sd ids # es) = count_inserts es"
  "count_inserts (Db op ok # es) =
     (if op = InsertPredictions \<and> ok then Suc (count_inserts es) else count_inserts es)"
  by (auto simp: inference_batches_def count_inserts_def)

lemma summaries_progress:
  "\<forall>e\<in>set evs. is_progress e \<Longrightarrow> inference_batches evs = [] \<and> count_inserts evs = 0"
proof (induction evs)
  case Nil
  then show ?case by simp
next
  case (Cons e evs)
  then show ?case by (cases e) auto
qed

lemma summaries_read:
  "\<forall>e\<in>set evs. is_read e \<Longrightarrow> inference_batches evs = [] \<and> count_inserts evs = 0"
proof (induction evs)
  case Nil
  then show ?case by simp
next
  case (Cons e evs)
  then show ?case by (cases e) auto
qed

lemma insert_predictions_facts:
  "insert_predictions env fns vals w = (ok, w') \<Longrightarrow>
   cnnstate_tbl w' = cnnstate_tbl w \<and> labelclass_tbl w' = labelclass_tbl w
   \<and> image_tbl w' = image_tbl w \<and> annotation_tbl w' = annotation_tbl w
   \<and> project_tbl w' = project_tbl w
   \<and> prediction_tbl w' = prediction_tbl w @ (if ok then map (zip fns) vals else [])
   \<and> task_log w' = task_log w @ [Db InsertPredictions ok]"
  by (auto simp: insert_predictions_def db_call_def Let_def split: prod.splits bool.splits if_splits)

lemma upsert_fvec_facts:
  "upsert_fvec env vals w = (ok, w') \<Longrightarrow>
   cnnstate_tbl w' = cnnstate_tbl w \<and> labelclass_tbl w' = labelclass_tbl w
   \<and> (\<not> ok \<longrightarrow> image_tbl w' = image_tbl w) \<and> annotation_tbl w' = annotation_tbl w
   \<and> project_tbl w' = project_tbl w \<and> prediction_tbl w' = prediction_tbl w
   \<and> task_log w' = task_log w @ [Db UpsertFVec ok]"
  by (auto simp: upsert_fvec_def db_call_def Let_def split: prod.splits bool.splits if_splits)

lemma emit_tbls [simp]:
  "cnnstate_tbl (emit ev w) = cnnstate_tbl w" "labelclass_tbl (emit ev w) = labelclass_tbl w"
  "image_tbl (emit ev w) = image_tbl w" "annotation_tbl (emit ev w) = annotation_tbl w"
  "project_tbl (emit ev w) = project_tbl w" "prediction_tbl (emit ev w) = prediction_tbl w"
  by (simp_all add: emit_def)

lemma record_call_tbls [simp]:
  "cnnstate_tbl (record_call ev w) = cnnstate_tbl w"
  "labelclass_tbl (record_call ev w) = labelclass_tbl w"
  "image_tbl (record_call ev w) = image_tbl w"
  "annotation_tbl (record_call ev w) = annotation_tbl w"
  "project_tbl (record_call ev w) = project_tbl w"
  "prediction_tbl (record_call ev w) = prediction_tbl w"
  by (simp_all add: record_call_def)

lemma emit_calls_tbls [simp]:
  "cnnstate_tbl (emit_calls u cs w) = cnnstate_tbl w"
  "labelclass_tbl (emit_calls u cs w) = labelclass_tbl w"
  "image_tbl (emit_calls u cs w) = image_tbl w"
  "annotation_tbl (emit_calls u cs w) = annotation_tbl w"
  "project_tbl (emit_calls u cs w) = project_tbl w"
  "prediction_tbl (emit_calls u cs w) = prediction_tbl w"
  by (simp_all add: emit_calls_def)

lemma load_metadata_tbls:
  "load_metadata env ids la w = (r, w') \<Longrightarrow>
   cnnstate_tbl w' = cnnstate_tbl w \<and> labelclass_tbl w' = labelclass_tbl w
   \<and> image_tbl w' = image_tbl w \<and> annotation_tbl w' = annotation_tbl w
   \<and> project_tbl w' = project_tbl w \<and> prediction_tbl w' = prediction_tbl w"
  using load_metadata_facts[of env ids la w r w'] by (simp add: tables_def)

lemma emit_calls_log [simp]:
  "task_log (emit_calls u cs w) = task_log w @ calls_events u cs"
  by (simp add: emit_calls_def calls_events_def)

lemma calls_events_summaries [simp]:
  "inference_batches (calls_events u cs) = []" "count_inserts (calls_events u cs) = 0"
  "AdapterInference s ids \<notin> set (calls_events u cs)"
  by (auto simp: calls_events_def intro!: summaries_progress[THEN conjunct1]
        summaries_progress[THEN conjunct2])

lemma load_metadata_log:
  "load_metadata env ids la w = (r, w') \<Longrightarrow>
   task_log w' = task_log w @ metadata_events env ids la w"
  using load_metadata_facts[of env ids la w r w']
  by (auto simp: metadata_events_def new_events_def)

lemma metadata_events_read: "\<forall>e\<in>set (metadata_events env ids la w). is_read e"
  using load_metadata_facts[of env ids la w "fst (load_metadata env ids la w)"
                               "snd (load_metadata env ids la w)"]
  by (auto simp: metadata_events_def new_events_def)

lemma metadata_events_summaries [simp]:
  "inference_batches (metadata_events env ids la w) = []"
  "count_inserts (metadata_events env ids la w) = 0"
  "AdapterInference s c \<notin> set (metadata_events env ids la w)"
  using metadata_events_read[of env ids la w] summaries_read by fastforce+

section \<open>One chunk and the loop over the chunks\<close>

lemma chunk_predict_tbls:
  "chunk_predict env j idx b c w = (res, w') \<Longrightarrow>
   cnnstate_tbl w' = cnnstate_tbl w \<and> labelclass_tbl w' = labelclass_tbl w
   \<and> image_tbl w' = image_tbl w \<and> annotation_tbl w' = annotation_tbl w
   \<and> project_tbl w' = project_tbl w \<and> prediction_tbl w' = prediction_tbl w"
  apply (simp add: chunk_predict_def Let_def
              split: option.splits prod.splits sum.splits if_splits)
  apply (auto dest!: load_metadata_tbls)
  done

lemma chunk_commit_tbls:
  "chunk_commit env idx fns vp vi w = (res, w') \<Longrightarrow>
   cnnstate_tbl w' = cnnstate_tbl w \<and> labelclass_tbl w' = labelclass_tbl w
   \<and> annotation_tbl w' = annotation_tbl w \<and> project_tbl w' = project_tbl w
   \<and> (\<exists>rows. prediction_tbl w' = prediction_tbl w @ rows)
   \<and> (\<forall>e. res = Inl e \<longrightarrow> image_tbl w' = image_tbl w)"
  apply (simp add: chunk_commit_def split: prod.splits if_splits bool.splits)
  apply (auto dest!: insert_predictions_facts upsert_fvec_facts)
  done

lemma process_chunk_tables:
  "process_chunk env j idx c w = (res, w') \<Longrightarrow>
   cnnstate_tbl w' = cnnstate_tbl w \<and> labelclass_tbl w' = labelclass_tbl w
   \<and> annotation_tbl w' = annotation_tbl w \<and> project_tbl w' = project_tbl w
   \<and> (\<exists>rows. prediction_tbl w' = prediction_tbl w @ rows)
   \<and> (\<forall>e. res = Inl e \<longrightarrow> image_tbl w' = image_tbl w)"
  apply (simp add: process_chunk_def Let_def split: option.splits prod.splits sum.splits)
  apply (auto dest!: chunk_predict_tbls chunk_commit_tbls)
  done

lemma chunk_predict_log:
  "chunk_predict env j idx b c w = (res, w') \<Longrightarrow>
   \<exists>evs. task_log w' = task_log w @ evs \<and> count_inserts evs = 0
        \<and> (\<forall>s ids. AdapterInference s ids \<in> set evs \<longrightarrow> s = job_stateDict j \<and> ids = c)
        \<and> (\<forall>r. res = Inr r \<longrightarrow> inference_batches evs = [c])"
  apply (simp add: chunk_predict_def Let_def
              split: option.splits prod.splits sum.splits if_splits)
  apply (auto dest!: load_metadata_log)
  done

lemma chunk_commit_log:
  "chunk_commit env idx fns vp vi w = (res, w') \<Longrightarrow>
   \<exists>evs. task_log w' = task_log w @ evs \<and> inference_batches evs = []
        \<and> (\<forall>s ids. AdapterInference s ids \<notin> set evs)
        \<and> ((prediction_tbl w' = prediction_tbl w \<and> count_inserts evs = 0)
           \<or> (vp \<noteq> [] \<and> prediction_tbl w' = prediction_tbl w @ map (zip fns) vp
               \<and> count_inserts evs = 1))"
  apply (simp add: chunk_commit_def split: prod.splits if_splits bool.splits)
  apply (auto dest!: insert_predictions_facts upsert_fvec_facts)
  done

lemma process_chunk_log:
  assumes "process_chunk env j idx c w = (res, w')"
  shows "\<exists>evs. task_log w' = task_log w @ evs
        \<and> (\<forall>s ids. AdapterInference s ids \<in> set evs \<longrightarrow> s = job_stateDict j \<and> ids = c)
        \<and> (res = Inr () \<longrightarrow> inference_batches evs = [c])
        \<and> ((prediction_tbl w' = prediction_tbl w \<and> count_inserts evs = 0)
           \<or> (\<exists>rows. rows \<noteq> [] \<and> prediction_tbl w' = prediction_tbl w @ rows
               \<and> count_inserts evs = 1))"
proof (cases "job_batchSizeLimit j")
  case None
  then have "res = Inl TypeError" "w' = w" using assms by (simp_all add: process_chunk_def)
  then show ?thesis by simp
next
  case (Some b)
  obtain r1 w1 where p: "chunk_predict env j idx b c w = (r1, w1)" by fastforce
  from chunk_predict_log[OF p] obtain e1 where e1: "task_log w1 = task_log w @ e1"
      "count_inserts e1 = 0"
      "\<forall>s ids. AdapterInference s ids \<in> set e1 \<longrightarrow> s = job_stateDict j \<and> ids = c"
      "\<forall>r. r1 = Inr r \<longrightarrow> inference_batches e1 = [c]" by blast
  from chunk_predict_tbls[OF p] have t1: "prediction_tbl w1 = prediction_tbl w" by simp
  show ?thesis
  proof (cases r1)
    case (Inl e)
    then have "res = Inl e" "w' = w1" using assms Some p by (simp_all add: process_chunk_def)
    then show ?thesis using e1 t1 by auto
  next
    case (Inr result)
    define w2 where "w2 = emit (chunk_reporter j idx b ''FINALIZING''
                                 (msg_chunk j idx ''saving predictions'') None None) w1"
    have l2: "task_log w2 = task_log w @ e1 @ [Progress (fst (chunk_reporter j idx b ''FINALIZING''
                                 (msg_chunk j idx ''saving predictions'') None None))
                (snd (chunk_reporter j idx b ''FINALIZING''
                                 (msg_chunk j idx ''saving predictions'') None None))]"
      and t2: "prediction_tbl w2 = prediction_tbl w"
      using e1(1) t1 by (simp_all add: w2_def)
    show ?thesis
    proof (cases "chunk_parse env j result")
      case (Inl e)
      then have "res = Inl (Wrapped ResultParsing (Some idx))" "w' = w2"
        using assms Some p Inr by (simp_all add: process_chunk_def w2_def)
      then show ?thesis using e1 l2 t2 Inr by auto
    next
      case (Inr parsed)
      obtain fns vp vi where parsed: "parsed = (fns, vp, vi)" by (cases parsed) auto
      have c: "chunk_commit env idx fns vp vi w2 = (res, w')"
        using assms Some p \<open>r1 = Inr result\<close> Inr parsed
        by (simp add: process_chunk_def w2_def)
      from chunk_commit_log[OF c] obtain e3 where e3: "task_log w' = task_log w2 @ e3"
        "inference_batches e3 = []" "\<forall>s ids. AdapterInference s ids \<notin> set e3"
        "(prediction_tbl w' = prediction_tbl w2 \<and> count_inserts e3 = 0)
           \<or> (vp \<noteq> [] \<and> prediction_tbl w' = prediction_tbl w2 @ map (zip fns) vp
               \<and> count_inserts e3 = 1)" by blast
      show ?thesis
        using e1 l2 t2 e3 \<open>r1 = Inr result\<close>
        by (intro exI[of _ "e1 @ [Progress (fst (chunk_reporter j idx b ''FINALIZING''
                                 (msg_chunk j idx ''saving predictions'') None None))
                (snd (chunk_reporter j idx b ''FINALIZING''
                                 (msg_chunk j idx ''saving predictions'') None None))] @ e3"])
           auto
    qed
  qed
qed

lemma infer_chunks_append:
  "infer_chunks env j idx (cs1 @ cs2) w =
     (case infer_chunks env j idx cs1 w of
        (Inl e, w') \<Rightarrow> (Inl e, w')
      | (Inr u, w') \<Rightarrow> infer_chunks env j (idx + length cs1) cs2 w')"
  by (induction cs1 arbitrary: idx w) (auto split: prod.splits sum.splits)

lemma infer_chunks_tables:
  "infer_chunks env j idx cs w = (res, w') \<Longrightarrow>
   cnnstate_tbl w' = cnnstate_tbl w \<and> labelclass_tbl w' = labelclass_tbl w
   \<and> annotation_tbl w' = annotation_tbl w \<and> project_tbl w' = project_tbl w"
proof (induction cs arbitrary: idx w)
  case Nil
  then show ?case by simp
next
  case (Cons c cs)
  obtain r1 w1 where p: "process_chunk env j idx c w = (r1, w1)" by fastforce
  show ?case
  proof (cases r1)
    case (Inl e)
    then show ?thesis using Cons.prems p process_chunk_tables[OF p] by simp
  next
    case (Inr u)
    then have "infer_chunks env j (Suc idx) cs w1 = (res, w')" using Cons.prems p by simp
    from Cons.IH[OF this] process_chunk_tables[OF p] show ?thesis by simp
  qed
qed

lemma infer_chunks_log:
  "infer_chunks env j idx cs w = (res, w') \<Longrightarrow>
   \<exists>evs rowss. task_log w' = task_log w @ evs
      \<and> (\<forall>s ids. AdapterInference s ids \<in> set evs \<longrightarrow> s = job_stateDict j \<and> ids \<in> set cs)
      \<and> prediction_tbl w' = prediction_tbl w @ concat rowss
      \<and> count_inserts evs = length (filter (\<lambda>rows. rows \<noteq> []) rowss)
      \<and> length rowss \<le> length cs
      \<and> (res = Inr () \<longrightarrow> inference_batches evs = cs \<and> length rowss = length cs)"
proof (induction cs arbitrary: idx w)
  case Nil
  then show ?case by (intro exI[of _ "[]"]) simp
next
  case (Cons c cs)
  obtain r1 w1 where p: "process_chunk env j idx c w = (r1, w1)" by fastforce
  from process_chunk_log[OF p] obtain e1 where e1: "task_log w1 = task_log w @ e1"
    "\<forall>s ids. AdapterInference s ids \<in> set e1 \<longrightarrow> s = job_stateDict j \<and> ids = c"
    "r1 = Inr () \<longrightarrow> inference_batches e1 = [c]"
    "(prediction_tbl w1 = prediction_tbl w \<and> count_inserts e1 = 0)
       \<or> (\<exists>rows. rows \<noteq> [] \<and> prediction_tbl w1 = prediction_tbl w @ rows
           \<and> count_inserts e1 = 1)" by blast
  from e1(4) obtain rows1 where r1: "prediction_tbl w1 = prediction_tbl w @ rows1"
    "count_inserts e1 = (if rows1 = [] then 0 else 1)"
    by (metis append_Nil2)
  show ?case
  proof (cases r1)
    case (Inl e)
    then have "res = Inl e" "w' = w1" using Cons.prems p by simp_all
    then show ?thesis using e1 r1
      by (intro exI[of _ e1] exI[of _ "[rows1]"]) auto
  next
    case (Inr u)
    then have "infer_chunks env j (Suc idx) cs w1 = (res, w')" using Cons.prems p by simp
    from Cons.IH[OF this] obtain e2 rowss where e2: "task_log w' = task_log w1 @ e2"
      "\<forall>s ids. AdapterInference s ids \<in> set e2 \<longrightarrow> s = job_stateDict j \<and> ids \<in> set cs"
      "prediction_tbl w' = prediction_tbl w1 @ concat rowss"
      "count_inserts e2 = length (filter (\<lambda>rows. rows \<noteq> []) rowss)"
      "length rowss \<le> length cs"
      "res = Inr () \<longrightarrow> inference_batches e2 = cs \<and> length rowss = length cs" by blast
    show ?thesis using e1 r1 e2 Inr
      by (intro exI[of _ "e1 @ e2"] exI[of _ "rows1 # rowss"]) auto
  qed
qed

text \<open>What a chunk that succeeds writes, and what later chunks leave of it.\<close>

lemma fvec_of_upsert:
  "fvec_of (upsert_image i f t) k = (if k = i then Some (Some f) else fvec_of t k)"
  by (induction t) (auto simp: fvec_of_def)

lemma fvec_of_foldl:
  "fvec_of (foldl (\<lambda>t (i, f). upsert_image i f t) t vi) k
     = (case map_of (rev vi) k of Some f \<Rightarrow> Some (Some f) | None \<Rightarrow> fvec_of t k)"
proof (induction vi rule: rev_induct)
  case Nil
  then show ?case by simp
next
  case (snoc x xs)
  obtain i f where x: "x = (i, f)" by (cases x) auto
  show ?case using snoc by (simp add: x fvec_of_upsert)
qed

lemma upsert_fvec_ok:
  "upsert_fvec env vals w = (True, w') \<Longrightarrow>
   image_tbl w' = foldl (\<lambda>t (i, f). upsert_image i f t) (image_tbl w) vals"
  by (auto simp: upsert_fvec_def db_call_def Let_def split: prod.splits bool.splits if_splits)

lemma chunk_commit_effect:
  assumes "chunk_commit env idx fns vp vi w = (Inr (), w')"
  shows "prediction_tbl w' = prediction_tbl w @ map (zip fns) vp
       \<and> image_tbl w' = foldl (\<lambda>t (i, f). upsert_image i f t) (image_tbl w) vi"
proof -
  define a where "a = (if vp \<noteq> [] then insert_predictions env fns vp w else (True, w))"
  obtain ok1 w1 where i: "a = (ok1, w1)" by (cases a)
  define b where "b = (if vi \<noteq> [] then upsert_fvec env vi w1 else (True, w1))"
  obtain ok2 w2 where u: "b = (ok2, w2)" by (cases b)
  have cc: "chunk_commit env idx fns vp vi w
              = (if ok1 then (if ok2 then (Inr (), w2)
                              else (Inl (Wrapped DataCommitting (Some idx)), w2))
                 else (Inl (Wrapped DataCommitting (Some idx)), w1))"
    by (simp add: chunk_commit_def a_def[symmetric] i b_def[symmetric] u)
  have ok: "ok1" "ok2" "w' = w2"
    using assms unfolding cc by (cases ok1; cases ok2; simp)+
  have p1: "prediction_tbl w1 = prediction_tbl w @ map (zip fns) vp \<and> image_tbl w1 = image_tbl w"
  proof (cases "vp = []")
    case True
    then show ?thesis using i by (simp add: a_def)
  next
    case False
    then have "insert_predictions env fns vp w = (ok1, w1)" using i by (simp add: a_def)
    from insert_predictions_facts[OF this] show ?thesis using ok(1) by simp
  qed
  have p2: "prediction_tbl w2 = prediction_tbl w1
            \<and> image_tbl w2 = foldl (\<lambda>t (i, f). upsert_image i f t) (image_tbl w1) vi"
  proof (cases "vi = []")
    case True
    then show ?thesis using u by (simp add: b_def)
  next
    case False
    then have e: "upsert_fvec env vi w1 = (ok2, w2)" using u by (simp add: b_def)
    then have "upsert_fvec env vi w1 = (True, w2)" using ok(2) by simp
    from upsert_fvec_facts[OF e] upsert_fvec_ok[OF this] show ?thesis by simp
  qed
  show ?thesis using p1 p2 ok(3) by simp
qed

lemma process_chunk_effect:
  assumes "process_chunk env j idx c w = (Inr (), w')"
  shows "\<exists>fns vp vi. chunk_outcome env j idx c w = Some (fns, vp, vi)
       \<and> prediction_tbl w' = prediction_tbl w @ map (zip fns) vp
       \<and> image_tbl w' = foldl (\<lambda>t (i, f). upsert_image i f t) (image_tbl w) vi"
proof -
  obtain b where b: "job_batchSizeLimit j = Some b"
    using assms by (cases "job_batchSizeLimit j") (simp_all add: process_chunk_def)
  obtain r1 w1 where p: "chunk_predict env j idx b c w = (r1, w1)" by fastforce
  obtain result where r1: "r1 = Inr result"
    using assms b p by (cases r1) (simp_all add: process_chunk_def)
  define w2 where "w2 = emit (chunk_reporter j idx b ''FINALIZING''
                                 (msg_chunk j idx ''saving predictions'') None None) w1"
  obtain parsed where pa: "chunk_parse env j result = Inr parsed"
    using assms b p r1 by (cases "chunk_parse env j result") (simp_all add: process_chunk_def)
  obtain fns vp vi where parsed: "parsed = (fns, vp, vi)" by (cases parsed) auto
  have c: "chunk_commit env idx fns vp vi w2 = (Inr (), w')"
    using assms b p r1 pa parsed by (simp add: process_chunk_def w2_def)
  have t: "prediction_tbl w2 = prediction_tbl w" "image_tbl w2 = image_tbl w"
    using chunk_predict_tbls[OF p] by (simp_all add: w2_def)
  have o: "chunk_outcome env j idx c w = Some (fns, vp, vi)"
    by (simp add: chunk_outcome_def b p r1 pa parsed)
  show ?thesis using chunk_commit_effect[OF c] t o by simp
qed

lemma process_chunk_fvec_stays:
  assumes "process_chunk env j idx c w = (res, w')"
      and "fvec_of (image_tbl w) i = Some (Some f)"
  shows "\<exists>f'. fvec_of (image_tbl w') i = Some (Some f')"
proof (cases res)
  case (Inl e)
  then show ?thesis using process_chunk_tables[OF assms(1)] assms(2) by simp
next
  case (Inr u)
  then have "process_chunk env j idx c w = (Inr (), w')" using assms(1) by simp
  from process_chunk_effect[OF this] obtain vi where
    "image_tbl w' = foldl (\<lambda>t (i, f). upsert_image i f t) (image_tbl w) vi" by blast
  then show ?thesis using assms(2) by (simp add: fvec_of_foldl split: option.splits)
qed

lemma infer_chunks_fvec_stays:
  "infer_chunks env j idx cs w = (res, w') \<Longrightarrow> fvec_of (image_tbl w) i = Some (Some f) \<Longrightarrow>
   \<exists>f'. fvec_of (image_tbl w') i = Some (Some f')"
proof (induction cs arbitrary: idx w f)
  case Nil
  then show ?case by simp
next
  case (Cons c cs)
  obtain r1 w1 where p: "process_chunk env j idx c w = (r1, w1)" by fastforce
  from process_chunk_fvec_stays[OF p Cons.prems(2)] obtain f1 where
    f1: "fvec_of (image_tbl w1) i = Some (Some f1)" by blast
  show ?case
  proof (cases r1)
    case (Inl e)
    then show ?thesis using Cons.prems(1) p f1 by simp
  next
    case (Inr u)
    then have "infer_chunks env j (Suc idx) cs w1 = (res, w')" using Cons.prems(1) p by simp
    from Cons.IH[OF this f1] show ?thesis .
  qed
qed

lemma infer_chunks_prefix:
  "infer_chunks env j idx cs w = (res, w') \<Longrightarrow> \<exists>rows. prediction_tbl w' = prediction_tbl w @ rows"
  using infer_chunks_log[of env j idx cs w res w'] by blast

text \<open>The definitions a concrete run unfolds.\<close>

lemmas run_simps =
  env_ok_def model_stub_def db_call_def emit_def record_call_def emit_calls_def
  load_model_state_def latest_row_def newer_def of_library_def imageID_chunks_def
  process_chunk_def chunk_predict_def chunk_parse_def chunk_commit_def
  load_metadata_def insert_predictions_def upsert_fvec_def field_value_def Let_def

text \<open>
  C3: the chunks are committed one after the other. When the chunks \<open>before\<close> have run
  and the next chunk \<open>c\<close> fails at any step, the loop ends with that failure whatever
  chunks come \<open>later\<close>, the image table is the one the chunks before left, the
  prediction table starts with theirs, and the inference function was called on no chunk
  after \<open>c\<close>. Every chunk \<open>ch\<close> of \<open>before\<close> succeeded, and what it committed is still
  there at the end: it appended to the prediction table exactly the rows parsed from its
  inference result, and these rows with all rows before them are a prefix of the final
  prediction table; it set the feature vector of exactly the images its result gave one
  for (the last one given, for an image given twice) and touched no other image, and an
  image with a feature vector after \<open>ch\<close> has one at the end.
\<close>

theorem C3_failed_chunk_keeps_earlier_commits:
  assumes "infer_chunks env j idx before w = (Inr (), w1)"
      and "process_chunk env j (idx + length before) c w1 = (Inl e, w2)"
  shows "infer_chunks env j idx (before @ c # later) w = (Inl e, w2)
       \<and> (\<exists>rows. prediction_tbl w2 = prediction_tbl w1 @ rows)
       \<and> image_tbl w2 = image_tbl w1
       \<and> (\<forall>s ids. AdapterInference s ids \<in> set (new_events w w2) \<longrightarrow> ids \<in> set (before @ [c]))
       \<and> (\<forall>pre ch post. before = pre @ ch # post \<longrightarrow>
            (\<exists>wp wq fieldNames values_pred values_img rest.
                infer_chunks env j idx pre w = (Inr (), wp)
              \<and> process_chunk env j (idx + length pre) ch wp = (Inr (), wq)
              \<and> chunk_outcome env j (idx + length pre) ch wp
                  = Some (fieldNames, values_pred, values_img)
              \<and> prediction_tbl wq = prediction_tbl wp @ map (zip fieldNames) values_pred
              \<and> prediction_tbl w2 = prediction_tbl wq @ rest
              \<and> (\<forall>i. fvec_of (image_tbl wq) i
                        = (case map_of (rev values_img) i of
                             Some f \<Rightarrow> Some (Some f)
                           | None \<Rightarrow> fvec_of (image_tbl wp) i))
              \<and> (\<forall>i f. fvec_of (image_tbl wq) i = Some (Some f) \<longrightarrow>
                         (\<exists>f'. fvec_of (image_tbl w2) i = Some (Some f')))))"
proof -
  have run: "infer_chunks env j idx (before @ c # later) w = (Inl e, w2)"
    using assms by (simp add: infer_chunks_append)
  have "infer_chunks env j idx (before @ [c]) w = (Inl e, w2)"
    using assms by (simp add: infer_chunks_append)
  from infer_chunks_log[OF this] obtain evs where ev: "task_log w2 = task_log w @ evs"
    "\<forall>s ids. AdapterInference s ids \<in> set evs \<longrightarrow>
       s = job_stateDict j \<and> ids \<in> set (before @ [c])" by blast
  from ev(1) have "new_events w w2 = evs" by (simp add: new_events_def)
  with ev(2) have adapter:
    "\<forall>s ids. AdapterInference s ids \<in> set (new_events w w2) \<longrightarrow> ids \<in> set (before @ [c])"
    by blast
  have img: "image_tbl w2 = image_tbl w1"
    using process_chunk_tables[OF assms(2)] by simp
  obtain rows where rows: "prediction_tbl w2 = prediction_tbl w1 @ rows"
    using process_chunk_tables[OF assms(2)] by blast
  have chunks: "\<exists>wp wq fieldNames values_pred values_img rest.
                infer_chunks env j idx pre w = (Inr (), wp)
              \<and> process_chunk env j (idx + length pre) ch wp = (Inr (), wq)
              \<and> chunk_outcome env j (idx + length pre) ch wp
                  = Some (fieldNames, values_pred, values_img)
              \<and> prediction_tbl wq = prediction_tbl wp @ map (zip fieldNames) values_pred
              \<and> prediction_tbl w2 = prediction_tbl wq @ rest
              \<and> (\<forall>i. fvec_of (image_tbl wq) i
                        = (case map_of (rev values_img) i of
                             Some f \<Rightarrow> Some (Some f)
                           | None \<Rightarrow> fvec_of (image_tbl wp) i))
              \<and> (\<forall>i f. fvec_of (image_tbl wq) i = Some (Some f) \<longrightarrow>
                         (\<exists>f'. fvec_of (image_tbl w2) i = Some (Some f')))"
    if s: "before = pre @ ch # post" for pre ch post
  proof -
    obtain rp wp where a: "infer_chunks env j idx pre w = (rp, wp)" by fastforce
    have ap: "(case (rp, wp) of (Inl e, w') \<Rightarrow> (Inl e, w')
               | (Inr u, w') \<Rightarrow> infer_chunks env j (idx + length pre) (ch # post) w')
              = (Inr (), w1)"
      using assms(1) unfolding s infer_chunks_append a .
    have rp: "rp = Inr ()" using ap by (cases rp) simp_all
    have tl: "infer_chunks env j (idx + length pre) (ch # post) wp = (Inr (), w1)"
      using ap rp by simp
    obtain rq wq where b: "process_chunk env j (idx + length pre) ch wp = (rq, wq)"
      by fastforce
    have rq: "rq = Inr ()" using tl b by (cases rq) simp_all
    have post: "infer_chunks env j (Suc (idx + length pre)) post wq = (Inr (), w1)"
      using tl b rq by simp
    have b': "process_chunk env j (idx + length pre) ch wp = (Inr (), wq)"
      using b rq by simp
    from process_chunk_effect[OF b'] obtain fns vp vi where
      o: "chunk_outcome env j (idx + length pre) ch wp = Some (fns, vp, vi)"
      and p: "prediction_tbl wq = prediction_tbl wp @ map (zip fns) vp"
      and i: "image_tbl wq = foldl (\<lambda>t (i, f). upsert_image i f t) (image_tbl wp) vi"
      by blast
    from infer_chunks_prefix[OF post] obtain r1 where
      r1: "prediction_tbl w1 = prediction_tbl wq @ r1" by blast
    have rest: "prediction_tbl w2 = prediction_tbl wq @ (r1 @ rows)"
      using rows r1 by simp
    have fv: "\<forall>k. fvec_of (image_tbl wq) k
                 = (case map_of (rev vi) k of
                      Some f \<Rightarrow> Some (Some f)
                    | None \<Rightarrow> fvec_of (image_tbl wp) k)"
      unfolding i by (simp add: fvec_of_foldl)
    have st: "\<forall>k f. fvec_of (image_tbl wq) k = Some (Some f) \<longrightarrow>
                     (\<exists>f'. fvec_of (image_tbl w2) k = Some (Some f'))"
      unfolding img using infer_chunks_fvec_stays[OF post] by blast
    show ?thesis
      using a rp b' o p rest fv st by blast
  qed
  show ?thesis
    using run rows img adapter chunks by blast
qed

theorem C3_failed_chunk_keeps_earlier_commits_witness:
  "fst (infer_chunks env_ok job_five 0 [[1], [2]] world_five) = Inr ()
   \<and> fst (process_chunk env_ok job_five 2 [3]
            (snd (infer_chunks env_ok job_five 0 [[1], [2]] world_five)))
       = Inl (Wrapped Inference (Some 2))
   \<and> infer_chunks env_ok job_five 0 [[1], [2], [3], [4], [5]] world_five
       = (Inl (Wrapped Inference (Some 2)),
          snd (process_chunk env_ok job_five 2 [3]
                 (snd (infer_chunks env_ok job_five 0 [[1], [2]] world_five))))
   \<and> map_option (snd \<circ> snd)
        (chunk_outcome env_ok job_five 0 [1] world_five) = Some [(1, ''F1'')]
   \<and> map_option (snd \<circ> snd)
        (chunk_outcome env_ok job_five 1 [2]
           (snd (infer_chunks env_ok job_five 0 [[1]] world_five))) = Some [(2, ''F2'')]
   \<and> map (fvec_of (image_tbl (snd (process_chunk env_ok job_five 2 [3]
                 (snd (infer_chunks env_ok job_five 0 [[1], [2]] world_five))))))
         [1, 2, 3, 4, 5]
       = [Some (Some ''F1''), Some (Some ''F2''), Some None, Some None, Some None]
   \<and> map (\<lambda>r. map_of r ''image'')
         (prediction_tbl (snd (process_chunk env_ok job_five 2 [3]
                 (snd (infer_chunks env_ok job_five 0 [[1], [2]] world_five)))))
       = [Some (PInt 1), Some (PInt 2)]"
proof -
  define W1 where "W1 = snd (infer_chunks env_ok job_five 0 [[1], [2]] world_five)"
  define W2 where "W2 = snd (process_chunk env_ok job_five 2 [3] W1)"
  have e1: "fst (infer_chunks env_ok job_five 0 [[1], [2]] world_five) = Inr ()"
    by (simp add: run_simps world_five_def job_five_def model_fail_3_def)
  have e2: "fst (process_chunk env_ok job_five 2 [3]
                   (snd (infer_chunks env_ok job_five 0 [[1], [2]] world_five)))
             = Inl (Wrapped Inference (Some 2))"
    by (simp add: run_simps world_five_def job_five_def model_fail_3_def)
  have e3: "map_option (snd \<circ> snd)
        (chunk_outcome env_ok job_five 0 [1] world_five) = Some [(1, ''F1'')]"
    by (simp add: chunk_outcome_def run_simps world_five_def job_five_def model_fail_3_def)
  have e4: "map_option (snd \<circ> snd)
        (chunk_outcome env_ok job_five 1 [2]
           (snd (infer_chunks env_ok job_five 0 [[1]] world_five))) = Some [(2, ''F2'')]"
    by (simp add: chunk_outcome_def run_simps world_five_def job_five_def model_fail_3_def)
  have e5: "map (fvec_of (image_tbl (snd (process_chunk env_ok job_five 2 [3]
                 (snd (infer_chunks env_ok job_five 0 [[1], [2]] world_five))))))
         [1, 2, 3, 4, 5]
       = [Some (Some ''F1''), Some (Some ''F2''), Some None, Some None, Some None]"
    by (simp add: fvec_of_def run_simps world_five_def job_five_def model_fail_3_def)
  have e6: "map (\<lambda>r. map_of r ''image'')
         (prediction_tbl (snd (process_chunk env_ok job_five 2 [3]
                 (snd (infer_chunks env_ok job_five 0 [[1], [2]] world_five)))))
       = [Some (PInt 1), Some (PInt 2)]"
    by (simp add: run_simps world_five_def job_five_def model_fail_3_def)
  have h1: "infer_chunks env_ok job_five 0 [[1], [2]] world_five = (Inr (), W1)"
    using e1 by (simp add: W1_def prod_eq_iff)
  have n: "0 + length [[1], [2::int]] = (2::nat)" by simp
  have h2: "process_chunk env_ok job_five (0 + length [[1], [2::int]]) [3] W1
              = (Inl (Wrapped Inference (Some 2)), W2)"
    unfolding n W2_def W1_def using e2 by (simp only: prod_eq_iff fst_conv snd_conv simp_thms)
  have "infer_chunks env_ok job_five 0 ([[1], [2]] @ [3] # [[4], [5]]) world_five
          = (Inl (Wrapped Inference (Some 2)), W2)"
    using C3_failed_chunk_keeps_earlier_commits[OF h1 h2, of "[[4], [5]]"] by blast
  then have "infer_chunks env_ok job_five 0 [[1], [2], [3], [4], [5]] world_five
          = (Inl (Wrapped Inference (Some 2)),
             snd (process_chunk env_ok job_five 2 [3]
                    (snd (infer_chunks env_ok job_five 0 [[1], [2]] world_five))))"
    unfolding W1_def W2_def append.simps .
  then show ?thesis
    using e1 e2 e3 e4 e5 e6 by (intro conjI)
qed

section \<open>The batch size limit\<close>

lemma process_chunk_no_limit:
  "job_batchSizeLimit j = None \<Longrightarrow> process_chunk env j idx c w = (Inl TypeError, w)"
  by (simp add: process_chunk_def)

text \<open>
  C6 fails on the code for the limit \<^verbatim>\<open>None\<close>: the image ids do form one chunk, but the
  first statement of the loop body computes \<^verbatim>\<open>idx*batchSizeLimit\<close> and raises \<^verbatim>\<open>TypeError\<close>
  before any metadata is loaded; the inference function is never called and nothing is
  stored.
\<close>

theorem C6_none_limit_raises_type_error:
  "fst (call_inference env_ok ''p'' [1, 2, 3] None None model_stub ''L'' None None world_five)
     = Inl TypeError
   \<and> prediction_tbl (snd (call_inference env_ok ''p'' [1, 2, 3] None None model_stub ''L''
                             None None world_five)) = []
   \<and> inference_batches (task_log (snd (call_inference env_ok ''p'' [1, 2, 3] None None
                                          model_stub ''L'' None None world_five))) = []"
  by (simp add: call_inference_def run_simps world_five_def)

text \<open>
  For an integer limit that is zero or negative the whole list is one chunk and the
  product is zero: the chunk runs to completion.
\<close>

lemma C6_nonpositive_limit_single_chunk:
  "b \<le> 0 \<Longrightarrow> imageID_chunks imageIDs (Some b) = [imageIDs]"
  by (simp add: imageID_chunks_def)

lemma C6_zero_limit_runs:
  "fst (call_inference env_ok ''p'' [1, 2, 3] None None model_stub ''L'' None (Some 0) world_five)
     = Inr ()
   \<and> inference_batches (task_log (snd (call_inference env_ok ''p'' [1, 2, 3] None None
                                          model_stub ''L'' None (Some 0) world_five)))
       = [[1, 2, 3]]
   \<and> length (prediction_tbl (snd (call_inference env_ok ''p'' [1, 2, 3] None None model_stub
                                     ''L'' None (Some 0) world_five))) = 3"
  by (simp add: call_inference_def run_simps world_five_def)

section \<open>The priority of a prediction\<close>

text \<open>
  The branch for the field \<^verbatim>\<open>priority\<close>: a priority of \<^verbatim>\<open>None\<close> becomes the confidence when
  the prediction has one and stays \<^verbatim>\<open>None\<close> otherwise; a prediction without the key raises
  \<^verbatim>\<open>KeyError\<close>, since the \<^verbatim>\<open>else\<close> branch reads \<^verbatim>\<open>prediction[fn]\<close> unguarded.
\<close>

lemma priority_defaults:
  "fn = ''priority'' \<Longrightarrow> map_of p ''priority'' = Some PNone \<Longrightarrow>
   map_of p ''confidence'' = Some c \<Longrightarrow>
   field_value predType imgID sid seg p fn = Inr c"
  "fn = ''priority'' \<Longrightarrow> map_of p ''priority'' = Some PNone \<Longrightarrow>
   map_of p ''confidence'' = None \<Longrightarrow>
   field_value predType imgID sid seg p fn = Inr PNone"
  "fn = ''priority'' \<Longrightarrow> map_of p ''priority'' = None \<Longrightarrow>
   field_value predType imgID sid seg p fn = Inl (KeyError ''priority'')"
  by (simp_all add: field_value_def)

text \<open>
  C9 fails on the code for a prediction in which the ranker leaves the priority unset by
  not setting the key: the parsing of the chunk raises, the chunk fails as a whole with
  the error of result parsing and no row of it is stored, although the prediction has a
  confidence.
\<close>

theorem C9_missing_priority_key_fails_chunk:
  "field_value ''boundingBoxes'' 1 (Some 1) None
     [(''label'', PInt 1), (''confidence'', PNum (9/10))] ''priority''
     = Inl (KeyError ''priority'')
   \<and> fst (call_inference env_ok ''p'' [1, 2] None None model_no_priority ''L'' (Some ranker_idle) (Some 4)
            world_five) = Inl (Wrapped ResultParsing (Some 0))
   \<and> prediction_tbl (snd (call_inference env_ok ''p'' [1, 2] None None model_no_priority ''L''
                             (Some ranker_idle) (Some 4) world_five)) = []"
  by (simp add: call_inference_def run_simps world_five_def model_no_priority_def ranker_idle_def
      array_split.simps)

section \<open>Rows of a segmentation mask\<close>
















end
